theory Spec2Isabelle
  imports Main "HOL-Library.Signed_Division"
begin

section \<open>Elasticsearch helpers of the operator: \<open>pkg/controller/utils/elasticsearch.go\<close>\<close>

subsection \<open>Constants\<close>

definition ElasticsearchRetentionFactor :: int where
  "ElasticsearchRetentionFactor = 4"

definition DefaultMaxIndexSizeGi :: int where
  "DefaultMaxIndexSizeGi = 30"

definition ElasticConnRetries :: nat where
  "ElasticConnRetries = 10"

definition ElasticConnRetryInterval :: string where
  "ElasticConnRetryInterval = ''500ms''"

subsection \<open>Go primitives used by the file\<close>

text \<open>
  \<open>fmt.Sprintf("%d", n)\<close>: the decimal numeral of an integer, most significant digit
  first, with a leading minus sign for a negative number.  Go's \<open>int\<close> and \<open>int64\<close> are
  modelled by \<open>int\<close>: the code only compares, divides by four and prints them, so no
  operation on them can overflow.
\<close>

definition digit_char :: "nat \<Rightarrow> char" where
  "digit_char d = ''0123456789'' ! d"

fun nat_digits :: "nat \<Rightarrow> string" where
  "nat_digits n = (if n < 10 then [digit_char n] else nat_digits (n div 10) @ [digit_char (n mod 10)])"

declare nat_digits.simps [simp del]

definition sprintf_d :: "int \<Rightarrow> string" where
  "sprintf_d i = (if i < 0 then CHR ''-'' # nat_digits (nat (- i)) else nat_digits (nat i))"

text \<open>Reading a decimal numeral back: the value of a digit string, used to say what a
  printed number denotes.\<close>

definition digit_val :: "char \<Rightarrow> nat option" where
  "digit_val c = map_of (zip ''0123456789'' [0 ..< 10]) c"

fun decimal_value :: "nat \<Rightarrow> string \<Rightarrow> nat option" where
  "decimal_value acc [] = Some acc"
| "decimal_value acc (c # cs) =
     (case digit_val c of None \<Rightarrow> None | Some d \<Rightarrow> decimal_value (10 * acc + d) cs)"

definition atoi :: "string \<Rightarrow> int option" where
  "atoi s = (case s of
       [] \<Rightarrow> None
     | c # cs \<Rightarrow>
         if c = CHR ''-'' then (if cs = [] then None else map_option (\<lambda>n. - int n) (decimal_value 0 cs))
         else map_option int (decimal_value 0 s))"

subsection \<open>Storage budget planner\<close>

text \<open>
  \<open>calculateRolloverAge\<close>.  Go's \<open>/\<close> on integers truncates toward zero, which is
  \<open>sdiv\<close>.
\<close>

definition calculateRolloverAge :: "int \<Rightarrow> string" where
  "calculateRolloverAge retention =
     (if retention \<le> 0 then ''1h''
      else if retention < ElasticsearchRetentionFactor then ''1d''
      else (let rolloverAge = retention sdiv ElasticsearchRetentionFactor
            in sprintf_d rolloverAge @ ''d''))"

text \<open>
  \<open>calculateRolloverSize\<close>.  The first line of the Go function is the floating-point
  expression \<open>int64((float64(totalEsStorage) * diskPercentage * diskForLogType) / 4)\<close>.
  Its \<open>float64\<close> arithmetic is not modelled: the expression is the parameter
  \<open>quarterShare\<close>, over an arbitrary type \<open>'f\<close> of share values, and everything after
  it is the code.  \<open>resource.MustParse("30Gi").Value()\<close> is \<open>30 * 2 ^ 30\<close>.
\<close>

definition calculateRolloverSize :: "(int \<Rightarrow> 'f \<Rightarrow> 'f \<Rightarrow> int) \<Rightarrow> int \<Rightarrow> 'f \<Rightarrow> 'f \<Rightarrow> string" where
  "calculateRolloverSize quarterShare totalEsStorage diskPercentage diskForLogType =
     (let rolloverSize = quarterShare totalEsStorage diskPercentage diskForLogType;
          maxRolloverSize = DefaultMaxIndexSizeGi * 2 ^ 30;
          rolloverSize = (if rolloverSize > maxRolloverSize then maxRolloverSize else rolloverSize)
      in sprintf_d rolloverSize @ ''b'')"

subsection \<open>Policy documents\<close>

text \<open>
  A policy document is a \<open>map[string]interface{}\<close>: a JSON value.  An object lists its
  members; a Go map has each key once, in no particular order.
\<close>

datatype json =
    JNull
  | JBool bool
  | JNum int
  | JStr string
  | JArr "json list"
  | JObj "(string \<times> json) list"

definition json_member :: "string \<Rightarrow> json \<Rightarrow> json" where
  "json_member k j = (case j of
       JObj kvs \<Rightarrow> (case map_of kvs k of None \<Rightarrow> JNull | Some v \<Rightarrow> v)
     | _ \<Rightarrow> JNull)"

record policyDetail =
  rolloverAge :: string
  rolloverSize :: string
  deleteAge :: string
  readOnlyAfterRollover :: bool
  policy :: json

definition buildILMPolicy ::
  "(int \<Rightarrow> 'f \<Rightarrow> 'f \<Rightarrow> int) \<Rightarrow> int \<Rightarrow> 'f \<Rightarrow> 'f \<Rightarrow> int \<Rightarrow> bool \<Rightarrow> policyDetail" where
  "buildILMPolicy quarterShare totalEsStorage totalDiskPercentage percentOfDiskForLogType retention readOnly =
     (let size = calculateRolloverSize quarterShare totalEsStorage totalDiskPercentage percentOfDiskForLogType;
          age = calculateRolloverAge retention;
          del = sprintf_d retention @ ''d'';
          warmActions =
            JObj ((''set_priority'', JObj [(''priority'', JNum 50)])
                  # (if readOnly then [(''readonly'', JObj [])] else []))
      in \<lparr> rolloverAge = age,
           rolloverSize = size,
           deleteAge = del,
           readOnlyAfterRollover = readOnly,
           policy =
             JObj [(''policy'',
               JObj [(''phases'',
                 JObj [(''hot'',
                         JObj [(''actions'',
                           JObj [(''rollover'', JObj [(''max_size'', JStr size), (''max_age'', JStr age)]),
                                 (''set_priority'', JObj [(''priority'', JNum 100)])])]),
                       (''warm'', JObj [(''actions'', warmActions)]),
                       (''delete'',
                         JObj [(''min_age'', JStr del),
                               (''actions'', JObj [(''delete'', JObj [])])])])])] \<rparr>)"

subsection \<open>Errors\<close>

text \<open>
  Go's \<open>error\<close> values, by where they come from: \<open>ElasticError\<close> is the Elasticsearch
  client's \<open>*elastic.Error\<close> with its HTTP status, \<open>LibraryError\<close> any other error a
  library call returns (Kubernetes client, TLS, time, transport), \<open>Errorf\<close> an error made by
  \<open>fmt.Errorf\<close> in this file, and \<open>UnmarshalTypeError\<close> the error of \<open>json.Unmarshal\<close>
  on a value of the wrong JSON type.  \<open>elastic.IsNotFound\<close> holds of status 404.
\<close>

datatype error =
    ElasticError nat string
  | LibraryError string
  | Errorf string
  | UnmarshalTypeError

definition IsNotFound :: "error \<Rightarrow> bool" where
  "IsNotFound err = (case err of ElasticError status _ \<Rightarrow> status = 404 | _ \<Rightarrow> False)"

definition and_then :: "error + 'a \<Rightarrow> ('a \<Rightarrow> error + 'b) \<Rightarrow> error + 'b" where
  "and_then r f = (case r of Inl err \<Rightarrow> Inl err | Inr x \<Rightarrow> f x)"

subsection \<open>Decoding an observed policy\<close>

text \<open>
  The struct \<open>Policy\<close>, one field per leaf, named by its path.  \<open>Readonly\<close> is a
  \<open>*struct{}\<close>: \<open>None\<close> is the nil pointer.
\<close>

record Policy =
  Hot_Rollover_MaxSize :: string
  Hot_Rollover_MaxAge :: string
  Warm_Readonly :: "unit option"
  Delete_MinAge :: string

text \<open>
  \<open>json.Unmarshal\<close> into the struct, after \<open>json.Marshal\<close> of the map (which cannot fail
  on a JSON value).  Into a struct: \<open>null\<close> leaves the zero value, an object is decoded
  member by member, anything else is a type error.  Into a string: \<open>null\<close> leaves
  \<open>""\<close>, a string is taken, anything else is a type error.  Into the pointer: \<open>null\<close>
  is nil, an object allocates, anything else is a type error.  A member that is absent
  leaves the zero value, as \<open>null\<close> does; members the struct does not name are skipped.
  A member is looked up by its exact key, the lower-case name the server writes (Go
  would also take a key that differs only in case).  A type error anywhere makes the
  call return an error.
\<close>

definition lookup :: "string \<Rightarrow> (string \<times> json) list \<Rightarrow> json" where
  "lookup k kvs = (case map_of kvs k of None \<Rightarrow> JNull | Some v \<Rightarrow> v)"

definition unmarshalStruct :: "json \<Rightarrow> error + (string \<times> json) list" where
  "unmarshalStruct j = (case j of
       JNull \<Rightarrow> Inr []
     | JObj kvs \<Rightarrow> Inr kvs
     | _ \<Rightarrow> Inl UnmarshalTypeError)"

definition unmarshalString :: "json \<Rightarrow> error + string" where
  "unmarshalString j = (case j of
       JNull \<Rightarrow> Inr []
     | JStr s \<Rightarrow> Inr s
     | _ \<Rightarrow> Inl UnmarshalTypeError)"

definition unmarshalPointer :: "json \<Rightarrow> error + unit option" where
  "unmarshalPointer j = (case j of
       JNull \<Rightarrow> Inr None
     | JObj kvs \<Rightarrow> Inr (Some ())
     | _ \<Rightarrow> Inl UnmarshalTypeError)"

definition unmarshalPolicy :: "json \<Rightarrow> error + Policy" where
  "unmarshalPolicy doc =
     and_then (unmarshalStruct doc) (\<lambda>top.
     and_then (unmarshalStruct (lookup ''phases'' top)) (\<lambda>phases.
     and_then (unmarshalStruct (lookup ''hot'' phases)) (\<lambda>hot.
     and_then (unmarshalStruct (lookup ''actions'' hot)) (\<lambda>hotActions.
     and_then (unmarshalStruct (lookup ''rollover'' hotActions)) (\<lambda>rollover.
     and_then (unmarshalString (lookup ''max_size'' rollover)) (\<lambda>maxSize.
     and_then (unmarshalString (lookup ''max_age'' rollover)) (\<lambda>maxAge.
     and_then (unmarshalStruct (lookup ''warm'' phases)) (\<lambda>warm.
     and_then (unmarshalStruct (lookup ''actions'' warm)) (\<lambda>warmActions.
     and_then (unmarshalPointer (lookup ''readonly'' warmActions)) (\<lambda>readonly.
     and_then (unmarshalStruct (lookup ''delete'' phases)) (\<lambda>del.
     and_then (unmarshalString (lookup ''min_age'' del)) (\<lambda>minAge.
       Inr \<lparr> Hot_Rollover_MaxSize = maxSize,
             Hot_Rollover_MaxAge = maxAge,
             Warm_Readonly = readonly,
             Delete_MinAge = minAge \<rparr>))))))))))))"

text \<open>\<open>extractPolicyDetails\<close>: on an error the caller reads only the error.\<close>

definition extractPolicyDetails :: "json \<Rightarrow> error + (string \<times> string \<times> string \<times> bool)" where
  "extractPolicyDetails doc =
     (case unmarshalPolicy doc of
        Inl err \<Rightarrow> Inl err
      | Inr existingPolicy \<Rightarrow>
          (let currentMaxAge = Hot_Rollover_MaxAge existingPolicy;
               currentMaxSize = Hot_Rollover_MaxSize existingPolicy;
               currentMinAge = Delete_MinAge existingPolicy;
               readOnly = (Warm_Readonly existingPolicy \<noteq> None)
           in Inr (currentMaxAge, currentMaxSize, currentMinAge, readOnly)))"

subsection \<open>Principals and roles\<close>

text \<open>A Go slice is a list, or nil: \<open>None\<close> is the nil slice, which ranges over nothing
  and to which \<open>append\<close> adds as to an empty one.\<close>

type_synonym 'a slice = "'a list option"

definition elems :: "'a slice \<Rightarrow> 'a list" where
  "elems s = (case s of None \<Rightarrow> [] | Some xs \<Rightarrow> xs)"

definition append_slice :: "'a slice \<Rightarrow> 'a \<Rightarrow> 'a slice" where
  "append_slice s x = Some (elems s @ [x])"

record RoleIndex =
  Names :: "string slice"
  Privileges :: "string slice"

record Application =
  Application :: string
  AppPrivileges :: "string slice"
  Resources :: "string slice"

record RoleDefinition =
  Cluster :: "string slice"
  Indices :: "RoleIndex slice"
  Applications :: "Application slice"

record Role =
  Name :: string
  Definition :: "RoleDefinition option"

record User =
  Username :: string
  Password :: string
  Roles :: "Role slice"

subsection \<open>The Elasticsearch server and the client\<close>

text \<open>
  The requests the client sends.  The server keeps the lifecycle policies by name and
  answers a request with an error where \<open>failure\<close> says so; a stored policy is the
  \<open>policy\<close> member of the body that was put, which is what a later get returns as the
  \<open>Policy\<close> of the named entry.  \<open>elastic_Client\<close> is the library's \<open>*elastic.Client\<close>:
  a connection to a server, with the requests it has sent so far.  The methods of
  \<open>esClient\<close> below are modelled on that connection, the field \<open>es.client\<close>.  Calls
  of the logger are left out: they change nothing that is returned or sent.
\<close>

datatype es_call =
    IlmGetLifecycle string
  | IlmPutLifecycle string json
  | SecurityPutRole string "RoleDefinition option"
  | SecurityPutUser string json
  | SecurityDeleteRole string
  | SecurityDeleteUser string

record es_server =
  lifecycles :: "string \<rightharpoonup> json"
  failure :: "es_call \<Rightarrow> error option"

record elastic_Client =
  server :: es_server
  requests :: "es_call list"

definition lookupLifecycle :: "es_server \<Rightarrow> string \<Rightarrow> error + json" where
  "lookupLifecycle srv policyName =
     (case failure srv (IlmGetLifecycle policyName) of
        Some err \<Rightarrow> Inl err
      | None \<Rightarrow>
          (case lifecycles srv policyName of
             None \<Rightarrow> Inl (ElasticError 404 ''Not Found'')
           | Some p \<Rightarrow> Inr p))"

definition XPackIlmGetLifecycle :: "elastic_Client \<Rightarrow> string \<Rightarrow> (error + json) \<times> elastic_Client" where
  "XPackIlmGetLifecycle es policyName =
     (lookupLifecycle (server es) policyName,
      es\<lparr>requests := requests es @ [IlmGetLifecycle policyName]\<rparr>)"

definition XPackIlmPutLifecycle :: "elastic_Client \<Rightarrow> string \<Rightarrow> json \<Rightarrow> error option \<times> elastic_Client" where
  "XPackIlmPutLifecycle es policyName body =
     (let sent = es\<lparr>requests := requests es @ [IlmPutLifecycle policyName body]\<rparr>
      in case failure (server es) (IlmPutLifecycle policyName body) of
           Some err \<Rightarrow> (Some err, sent)
         | None \<Rightarrow>
             (None, sent\<lparr>server := (server es)\<lparr>lifecycles :=
                (lifecycles (server es))(policyName \<mapsto> json_member ''policy'' body)\<rparr>\<rparr>))"

text \<open>
  A request with no answer but success or an error, and no effect modelled on the
  server.  Before it sends a request the client library checks its required fields
  (\<open>Validate\<close>): a role request needs a role name, a principal request a user name.  A
  request that fails the check is not sent, and the call returns the error
  \<open>missing required fields: [...]\<close>.  (A body must not be nil either; the bodies built
  in this file never are.  The lifecycle requests above carry the policy name
  \<open>indexName + "_policy"\<close>, which is never empty.)
\<close>

definition Validate :: "es_call \<Rightarrow> error option" where
  "Validate call = (case call of
       SecurityPutRole name body \<Rightarrow>
         if name = [] then Some (LibraryError ''missing required fields: [Name]'') else None
     | SecurityPutUser username body \<Rightarrow>
         if username = [] then Some (LibraryError ''missing required fields: [Username]'') else None
     | SecurityDeleteRole name \<Rightarrow>
         if name = [] then Some (LibraryError ''missing required fields: [Name]'') else None
     | SecurityDeleteUser username \<Rightarrow>
         if username = [] then Some (LibraryError ''missing required fields: [Username]'') else None
     | _ \<Rightarrow> None)"

definition Do :: "elastic_Client \<Rightarrow> es_call \<Rightarrow> error option \<times> elastic_Client" where
  "Do es call =
     (case Validate call of
        Some err \<Rightarrow> (Some err, es)
      | None \<Rightarrow> (failure (server es) call, es\<lparr>requests := requests es @ [call]\<rparr>))"

subsection \<open>Policy diff and apply\<close>

definition applyILMPolicy :: "elastic_Client \<Rightarrow> string \<Rightarrow> json \<Rightarrow> error option \<times> elastic_Client" where
  "applyILMPolicy es indexName pol =
     (let policyName = indexName @ ''_policy''
      in XPackIlmPutLifecycle es policyName pol)"

text \<open>
  \<open>createOrUpdatePolicies\<close>.  The Go map \<open>listPolicy\<close> is the list of its entries in
  the order the \<open>range\<close> visits them: any order, every key once.
\<close>

fun createOrUpdatePolicies :: "elastic_Client \<Rightarrow> (string \<times> policyDetail) list \<Rightarrow> error option \<times> elastic_Client" where
  "createOrUpdatePolicies es [] = (None, es)"
| "createOrUpdatePolicies es ((indexName, pd) # listPolicy) =
     (let policyName = indexName @ ''_policy''
      in case XPackIlmGetLifecycle es policyName of
           (Inl err, es1) \<Rightarrow>
             if IsNotFound err then applyILMPolicy es1 indexName (policy pd)
             else (Some err, es1)
         | (Inr res, es1) \<Rightarrow>
             (case extractPolicyDetails res of
                Inl err \<Rightarrow> (Some err, es1)
              | Inr (currentMaxAge, currentMaxSize, currentMinAge, readOnly) \<Rightarrow>
                  if currentMaxAge \<noteq> rolloverAge pd \<or>
                     currentMaxSize \<noteq> rolloverSize pd \<or>
                     currentMinAge \<noteq> deleteAge pd \<or>
                     readOnly \<noteq> readOnlyAfterRollover pd
                  then applyILMPolicy es1 indexName (policy pd)
                  else createOrUpdatePolicies es1 listPolicy))"

text \<open>The requests sent between two states of a connection.\<close>

definition issued :: "elastic_Client \<Rightarrow> elastic_Client \<Rightarrow> es_call list" where
  "issued before after = drop (length (requests before)) (requests after)"

subsection \<open>Principal and role synchronizer\<close>

text \<open>\<open>json.Marshal\<close> of a \<open>[]string\<close>: \<open>null\<close> for the nil slice, an array
  otherwise.\<close>

definition marshalStrings :: "string slice \<Rightarrow> json" where
  "marshalStrings s = (case s of None \<Rightarrow> JNull | Some xs \<Rightarrow> JArr (map JStr xs))"

definition RoleNames :: "User \<Rightarrow> string slice" where
  "RoleNames u = foldl (\<lambda>names role. append_slice names (Name role)) (Some []) (elems (Roles u))"

definition createRole :: "elastic_Client \<Rightarrow> Role \<Rightarrow> error option \<times> elastic_Client" where
  "createRole es role =
     (if Name role = [] then (Some (Errorf ''can't create a role with an empty name''), es)
      else Do es (SecurityPutRole (Name role) (Definition role)))"

fun CreateRoles :: "elastic_Client \<Rightarrow> Role list \<Rightarrow> error option \<times> elastic_Client" where
  "CreateRoles es [] = (None, es)"
| "CreateRoles es (role # roles) =
     (case createRole es role of
        (Some err, es1) \<Rightarrow> (Some err, es1)
      | (None, es1) \<Rightarrow> CreateRoles es1 roles)"

definition CreateUser :: "elastic_Client \<Rightarrow> User \<Rightarrow> error option \<times> elastic_Client" where
  "CreateUser es user =
     (let rolesToCreate =
            foldl (\<lambda>acc role. if Definition role \<noteq> None then append_slice acc role else acc)
              None (elems (Roles user))
      in case (if length (elems rolesToCreate) > 0 then CreateRoles es (elems rolesToCreate)
               else (None, es)) of
           (Some err, es1) \<Rightarrow> (Some err, es1)
         | (None, es1) \<Rightarrow>
             (let body = JObj [(''password'', JStr (Password user)),
                               (''roles'', marshalStrings (RoleNames user))]
              in Do es1 (SecurityPutUser (Username user) body)))"

definition deleteRole :: "elastic_Client \<Rightarrow> Role \<Rightarrow> error option \<times> elastic_Client" where
  "deleteRole es role =
     (if Name role = [] then (Some (Errorf ''can't delete a role with an empty name''), es)
      else Do es (SecurityDeleteRole (Name role)))"

fun DeleteRoles :: "elastic_Client \<Rightarrow> Role list \<Rightarrow> error option \<times> elastic_Client" where
  "DeleteRoles es [] = (None, es)"
| "DeleteRoles es (role # roles) =
     (case deleteRole es role of
        (Some err, es1) \<Rightarrow> (Some err, es1)
      | (None, es1) \<Rightarrow> DeleteRoles es1 roles)"

definition DeleteUser :: "elastic_Client \<Rightarrow> User \<Rightarrow> error option \<times> elastic_Client" where
  "DeleteUser es user =
     (case DeleteRoles es (elems (Roles user)) of
        (Some err, es1) \<Rightarrow> (Some err, es1)
      | (None, es1) \<Rightarrow> Do es1 (SecurityDeleteUser (Username user)))"

subsection \<open>Connection bootstrapper\<close>

text \<open>
  What the bootstrapper reads and calls outside this file.  The secret names are
  constants of other packages.  A secret's \<open>Data\<close> is a \<open>map[string][]byte\<close>: the list
  of its entries in the order a \<open>range\<close> visits them, every key once.  An error of a
  library call is its message, wrapped as \<open>LibraryError\<close>.
  \<^item> \<open>clientGet\<close> is \<open>client.Get\<close> of a secret of the operator namespace,
    \<open>clientGetInstallation\<close> \<open>client.Get\<close> of the default installation;
  \<^item> \<open>utilsGetSecret\<close> is \<open>utils.GetSecret\<close>, whose body is not in this file: it may
    return a nil secret with no error;
  \<^item> \<open>AppendCertsFromPEM\<close> is a fresh \<open>x509.CertPool\<close> with the certificates of a PEM
    text appended, \<open>None\<close> when none could be parsed;
  \<^item> \<open>X509KeyPair\<close> is \<open>tls.X509KeyPair\<close>;
  \<^item> \<open>NewClient options i\<close> is what the call of \<open>elastic.NewClient\<close> returns when
    \<open>i\<close> calls have been made before it; on an error the library returns a nil client.
\<close>

datatype secret_name =
    ElasticsearchAdminUserSecret
  | TigeraElasticsearchInternalCertSecret
  | ExternalESPublicCertName
  | ExternalCertsSecret

record Secret =
  Data :: "(string \<times> string) list"

record Installation =
  CertificateManagement_CACert :: "string option"

record ('pool, 'cert) ClientOptions =
  URL :: string
  BasicAuthUser :: string
  BasicAuthPassword :: string
  RootCAs :: "'pool option"
  Certificates :: "'cert list"
  DisableKeepAlives :: bool
  Sniff :: bool
  Healthcheck :: bool

record ('pool, 'cert) world =
  clientGet :: "secret_name \<Rightarrow> string + Secret"
  clientGetInstallation :: "string + Installation"
  utilsGetSecret :: "secret_name \<Rightarrow> string + Secret option"
  AppendCertsFromPEM :: "string \<Rightarrow> 'pool option"
  X509KeyPair :: "string \<Rightarrow> string \<Rightarrow> string + 'cert"
  NewClient :: "('pool, 'cert) ClientOptions \<Rightarrow> nat \<Rightarrow> error + elastic_Client"

definition library :: "string + 'a \<Rightarrow> error + 'a" where
  "library r = (case r of Inl msg \<Rightarrow> Inl (LibraryError msg) | Inr x \<Rightarrow> Inr x)"

text \<open>Reading a key of a \<open>map[string][]byte\<close>: nil, the empty byte string, when the key
  is absent.\<close>

definition bytes_at :: "(string \<times> string) list \<Rightarrow> string \<Rightarrow> string" where
  "bytes_at m k = (case map_of m k of None \<Rightarrow> [] | Some v \<Rightarrow> v)"

definition getESRoots :: "('pool, 'cert) world \<Rightarrow> secret_name \<Rightarrow> error + 'pool" where
  "getESRoots w secretName =
     and_then (library (clientGetInstallation w)) (\<lambda>instance.
     and_then
       (case CertificateManagement_CACert instance of
          Some caCert \<Rightarrow> Inr caCert
        | None \<Rightarrow>
            and_then (library (clientGet w secretName)) (\<lambda>esPublicCert.
              case map_of (Data esPublicCert) ''tls.crt'' of
                None \<Rightarrow> Inl (Errorf ''couldn't find tls.crt in Elasticsearch secret'')
              | Some caPEM \<Rightarrow> Inr caPEM))
       (\<lambda>caPEM.
          case AppendCertsFromPEM w caPEM of
            None \<Rightarrow> Inl (Errorf ''failed to parse root certificate'')
          | Some roots \<Rightarrow> Inr roots))"

definition getClientCredentials ::
  "('pool, 'cert) world \<Rightarrow> bool \<Rightarrow> error + (string \<times> string \<times> 'pool)" where
  "getClientCredentials w externalElastic =
     and_then (library (clientGet w ElasticsearchAdminUserSecret)) (\<lambda>esSecret.
       if length (Data esSecret) \<noteq> 1
       then Inl (Errorf ''secret does not contain only 1 entry for credentials'')
       else
         (let (username, password) = foldl (\<lambda>_ (k, v). (k, v)) ([], []) (Data esSecret)
          in if username = [] \<or> password = []
             then Inl (Errorf ''username or password is empty'')
             else
               (let secretName = (if externalElastic then ExternalESPublicCertName
                                  else TigeraElasticsearchInternalCertSecret)
                in and_then (getESRoots w secretName) (\<lambda>roots.
                     Inr (username, password, roots)))))"

text \<open>
  \<open>time.ParseDuration\<close>, for durations written as one unsigned whole number and one
  unit, in nanoseconds.  The only argument is the constant \<open>ElasticConnRetryInterval\<close>.
\<close>

definition duration_units :: "(string \<times> nat) list" where
  "duration_units =
     [(''ns'', 1), (''us'', 1000), (''ms'', 1000000), (''s'', 1000000000),
      (''m'', 60000000000), (''h'', 3600000000000)]"

definition ParseDuration :: "string \<Rightarrow> error + nat" where
  "ParseDuration s =
     (let ds = takeWhile (\<lambda>c. digit_val c \<noteq> None) s;
          unit = dropWhile (\<lambda>c. digit_val c \<noteq> None) s
      in case (if ds = [] then None else decimal_value 0 ds, map_of duration_units unit) of
           (Some n, Some ns) \<Rightarrow> Inr (n * ns)
         | _ \<Rightarrow> Inl (LibraryError (''time: invalid duration '' @ s)))"

text \<open>What the bootstrapper does that can be seen from outside: a call of
  \<open>elastic.NewClient\<close>, numbered from 0, and a \<open>time.Sleep\<close> of so many nanoseconds.\<close>

datatype boot_event = Attempt nat | Sleep nat

text \<open>The struct \<open>esClient\<close>; its field is nil before a client has been constructed.  A
  value of the interface \<open>ElasticClient\<close> is an \<open>esClient option\<close>, \<open>None\<close> the nil
  interface.\<close>

record esClient =
  client :: "elastic_Client option"

text \<open>The retry loop \<open>for i := 0; i < ElasticConnRetries; i++\<close>, on the variables
  \<open>esCli\<close> and \<open>err\<close> and the events so far.\<close>

function retryLoop ::
  "(nat \<Rightarrow> error + elastic_Client) \<Rightarrow> nat \<Rightarrow> nat \<Rightarrow>
   elastic_Client option \<times> error option \<times> boot_event list \<Rightarrow>
   elastic_Client option \<times> error option \<times> boot_event list" where
  "retryLoop newClient retryInterval i (esCli, err, events) =
     (if i < ElasticConnRetries then
        (case newClient i of
           Inr c \<Rightarrow> (Some c, None, events @ [Attempt i])
         | Inl e \<Rightarrow>
             retryLoop newClient retryInterval (i + 1)
               (None, Some e, events @ [Attempt i, Sleep retryInterval]))
      else (esCli, err, events))"
  by pat_completeness auto
termination
  by (relation "measure (\<lambda>(newClient, retryInterval, i, st). ElasticConnRetries - i)") auto

declare retryLoop.simps [simp del]

text \<open>The \<open>if external\<close> block of \<open>NewElasticClient\<close>: the client certificates for
  mTLS.\<close>

definition clientCertificates :: "('pool, 'cert) world \<Rightarrow> bool \<Rightarrow> error + 'cert list" where
  "clientCertificates w external =
     (if external then
        and_then (library (utilsGetSecret w ExternalCertsSecret)) (\<lambda>certSecret.
          case certSecret of
            None \<Rightarrow> Inl (Errorf ''mTLS is enabled but no client certificate was provided'')
          | Some secret \<Rightarrow>
              and_then
                (library (X509KeyPair w (bytes_at (Data secret) ''client.crt'')
                                        (bytes_at (Data secret) ''client.key'')))
                (\<lambda>cert. Inr [cert]))
      else Inr [])"

definition NewElasticClient ::
  "('pool, 'cert) world \<Rightarrow> string \<Rightarrow> bool \<Rightarrow> esClient option \<times> error option \<times> boot_event list" where
  "NewElasticClient w elasticHTTPSEndpoint external =
     (case getClientCredentials w external of
        Inl err \<Rightarrow> (None, Some err, [])
      | Inr (user, password, root) \<Rightarrow>
          (case clientCertificates w external of
             Inl err \<Rightarrow> (None, Some err, [])
           | Inr certs \<Rightarrow>
               (let options = \<lparr> URL = elasticHTTPSEndpoint,
                                BasicAuthUser = user,
                                BasicAuthPassword = password,
                                RootCAs = Some root,
                                Certificates = certs,
                                DisableKeepAlives = True,
                                Sniff = False,
                                Healthcheck = False \<rparr>
                in case ParseDuration ElasticConnRetryInterval of
                     Inl err \<Rightarrow> (None, Some err, [])
                   | Inr retryInterval \<Rightarrow>
                       (case retryLoop (NewClient w options) retryInterval 0 (None, None, []) of
                          (esCli, err, events) \<Rightarrow> (Some \<lparr> client = esCli \<rparr>, err, events)))))"

subsection \<open>Sample inputs\<close>

text \<open>
  A connection to a server with no policies and no failures that has sent nothing,
  and one to a server that fails the request \<open>bad\<close>; a cluster whose admin secret holds
  \<open>adminData\<close>, whose CA is read from a secret, and where the calls of
  \<open>elastic.NewClient\<close> return \<open>attempts\<close>, and one whose CA secret has no
  \<open>tls.crt\<close>; a policy detail; a principal with two
  roles that have no definition, one with a role that has a definition and one that
  has none, and one with an empty user name.  Then two readings of what was done: the attempt numbers among the events of
  a bootstrap, and whether a request is an apply of a lifecycle policy.
\<close>

definition fresh_connection :: elastic_Client where
  "fresh_connection = \<lparr> server = \<lparr> lifecycles = Map.empty, failure = (\<lambda>call. None) \<rparr>, requests = [] \<rparr>"

definition example_world ::
  "(string \<times> string) list \<Rightarrow> (nat \<Rightarrow> error + elastic_Client) \<Rightarrow> (string, string) world" where
  "example_world adminData attempts =
     \<lparr> clientGet = (\<lambda>name. if name = ElasticsearchAdminUserSecret then Inr \<lparr> Data = adminData \<rparr>
                            else Inr \<lparr> Data = [(''tls.crt'', ''PEM'')] \<rparr>),
       clientGetInstallation = Inr \<lparr> CertificateManagement_CACert = None \<rparr>,
       utilsGetSecret = (\<lambda>name. Inr None),
       AppendCertsFromPEM = Some,
       X509KeyPair = (\<lambda>crt key. Inr crt),
       NewClient = (\<lambda>options. attempts) \<rparr>"

fun attempts_of :: "boot_event list \<Rightarrow> nat list" where
  "attempts_of [] = []"
| "attempts_of (Attempt i # evs) = i # attempts_of evs"
| "attempts_of (Sleep d # evs) = attempts_of evs"

definition sample_detail :: policyDetail where
  "sample_detail = buildILMPolicy (\<lambda>t (a :: int) b. t) 100 1 1 8 True"

definition sample_user :: User where
  "sample_user =
     \<lparr> Username = ''u1'', Password = ''pw'',
       Roles = Some [\<lparr> Name = ''r1'', Definition = None \<rparr>, \<lparr> Name = ''r2'', Definition = None \<rparr>] \<rparr>"

definition failing_connection :: "es_call \<Rightarrow> elastic_Client" where
  "failing_connection bad =
     \<lparr> server = \<lparr> lifecycles = Map.empty,
                   failure = (\<lambda>call. if call = bad then Some (ElasticError 500 ''Internal Server Error'')
                                      else None) \<rparr>,
       requests = [] \<rparr>"

definition missing_ca_world :: "(string, string) world" where
  "missing_ca_world =
     (example_world [(''elastic'', ''changeme'')] (\<lambda>i. Inr fresh_connection))
       \<lparr> clientGet := (\<lambda>name. if name = ElasticsearchAdminUserSecret
                               then Inr \<lparr> Data = [(''elastic'', ''changeme'')] \<rparr>
                               else Inr \<lparr> Data = [] \<rparr>) \<rparr>"

definition sample_linseed :: User where
  "sample_linseed =
     \<lparr> Username = ''linseed'', Password = ''pw'',
       Roles = Some [\<lparr> Name = ''linseed'',
                       Definition = Some \<lparr> Cluster = Some [''monitor'', ''manage_ilm''],
                                           Indices = None, Applications = None \<rparr> \<rparr>,
                     \<lparr> Name = ''viewer'', Definition = None \<rparr>] \<rparr>"

definition nameless_user :: User where
  "nameless_user =
     \<lparr> Username = [], Password = ''pw'', Roles = Some [\<lparr> Name = ''r1'', Definition = None \<rparr>] \<rparr>"

fun is_apply :: "es_call \<Rightarrow> bool" where
  "is_apply (IlmPutLifecycle policyName body) = True"
| "is_apply call = False"

subsection \<open>Facts about the primitives\<close>

lemma below_ten:
  "(d::nat) < 10 \<Longrightarrow>
     d = 0 \<or> d = 1 \<or> d = 2 \<or> d = 3 \<or> d = 4 \<or> d = 5 \<or> d = 6 \<or> d = 7 \<or> d = 8 \<or> d = 9"
  by arith

lemma digit_val_digit_char: "d < 10 \<Longrightarrow> digit_val (digit_char d) = Some d"
  using below_ten [of d] by (auto simp: digit_val_def digit_char_def upt_conv_Cons)

lemma decimal_value_append:
  "decimal_value acc (xs @ ys) =
     (case decimal_value acc xs of None \<Rightarrow> None | Some v \<Rightarrow> decimal_value v ys)"
  by (induction xs arbitrary: acc) (auto split: option.splits)

lemma decimal_value_nat_digits: "decimal_value 0 (nat_digits n) = Some n"
proof (induction n rule: nat_digits.induct)
  case (1 n)
  show ?case
  proof (cases "n < 10")
    case True
    then show ?thesis
      by (subst nat_digits.simps) (simp add: digit_val_digit_char)
  next
    case False
    with 1 have "decimal_value 0 (nat_digits (n div 10)) = Some (n div 10)"
      by simp
    then show ?thesis using False
      by (subst nat_digits.simps) (simp add: decimal_value_append digit_val_digit_char)
  qed
qed

lemma nat_digits_not_Nil: "nat_digits n \<noteq> []"
  by (subst nat_digits.simps) simp

lemma digit_char_not_minus: "d < 10 \<Longrightarrow> digit_char d \<noteq> CHR ''-''"
  using below_ten [of d] by (auto simp: digit_char_def)

lemma hd_nat_digits_not_minus: "hd (nat_digits n) \<noteq> CHR ''-''"
proof (induction n rule: nat_digits.induct)
  case (1 n)
  show ?case
  proof (cases "n < 10")
    case True
    then show ?thesis
      by (subst nat_digits.simps) (simp add: digit_char_not_minus)
  next
    case False
    with 1 show ?thesis
      by (subst nat_digits.simps) (simp add: nat_digits_not_Nil)
  qed
qed

lemma atoi_sprintf_d: "atoi (sprintf_d i) = Some i"
proof (cases "i < 0")
  case True
  then show ?thesis
    by (simp add: atoi_def sprintf_d_def nat_digits_not_Nil decimal_value_nat_digits)
next
  case False
  obtain c cs where cs: "nat_digits (nat i) = c # cs"
    using nat_digits_not_Nil [of "nat i"] by (cases "nat_digits (nat i)") auto
  have "c \<noteq> CHR ''-''"
    using hd_nat_digits_not_minus [of "nat i"] cs by simp
  moreover have "decimal_value 0 (c # cs) = Some (nat i)"
    using decimal_value_nat_digits [of "nat i"] cs by simp
  ultimately show ?thesis using False cs
    by (simp add: atoi_def sprintf_d_def)
qed

lemma sprintf_d_small: "0 \<le> i \<Longrightarrow> i < 10 \<Longrightarrow> sprintf_d i = [digit_char (nat i)]"
  by (simp add: sprintf_d_def nat_digits.simps)

subsection \<open>Facts about the planner\<close>

text \<open>Whatever the floating-point expression yields, the size printed is that value
  capped at 30 GiB, which is 32212254720 bytes.\<close>

lemma calculateRolloverSize_capped:
  "calculateRolloverSize q totalEs pct share = sprintf_d (min (q totalEs pct share) 32212254720) @ ''b'' \<and>
   atoi (butlast (calculateRolloverSize q totalEs pct share)) = Some (min (q totalEs pct share) 32212254720) \<and>
   min (q totalEs pct share) 32212254720 \<le> 30 * 2 ^ 30"
  by (simp add: calculateRolloverSize_def Let_def DefaultMaxIndexSizeGi_def min_def atoi_sprintf_d
      butlast_append)

subsection \<open>Facts about the bootstrapper\<close>

lemma ParseDuration_interval: "ParseDuration ElasticConnRetryInterval = Inr 500000000"
  by (simp add: ParseDuration_def ElasticConnRetryInterval_def digit_val_def duration_units_def upt_conv_Cons)

lemma retryLoop_all_fail:
  assumes "\<forall>j. i \<le> j \<and> j < ElasticConnRetries \<longrightarrow> newClient j = Inl (e j)"
    and "i < ElasticConnRetries"
  shows "retryLoop newClient d i (c0, e0, evs) =
           (None, Some (e (ElasticConnRetries - 1)),
            evs @ concat (map (\<lambda>j. [Attempt j, Sleep d]) [i ..< ElasticConnRetries]))"
  using assms
proof (induction "ElasticConnRetries - i" arbitrary: i c0 e0 evs)
  case 0
  then show ?case by simp
next
  case (Suc n)
  have fail: "newClient i = Inl (e i)"
    using Suc.prems by simp
  show ?case
  proof (cases "Suc i < ElasticConnRetries")
    case True
    have "retryLoop newClient d (Suc i) (None, Some (e i), evs @ [Attempt i, Sleep d]) =
           (None, Some (e (ElasticConnRetries - 1)),
            (evs @ [Attempt i, Sleep d]) @ concat (map (\<lambda>j. [Attempt j, Sleep d]) [Suc i ..< ElasticConnRetries]))"
      using Suc.hyps(2) Suc.prems(1) True by (intro Suc.hyps(1)) auto
    then show ?thesis
      using Suc.prems(2) fail
      by (subst retryLoop.simps) (simp add: upt_conv_Cons)
  next
    case False
    then have last: "i = ElasticConnRetries - 1" "Suc i = ElasticConnRetries"
      using Suc.prems(2) by auto
    have stop: "retryLoop newClient d (Suc i) (None, Some (e i), evs @ [Attempt i, Sleep d]) =
            (None, Some (e i), evs @ [Attempt i, Sleep d])"
      using False by (subst retryLoop.simps) simp
    show ?thesis
      using Suc.prems(2) fail stop last
      by (subst retryLoop.simps) (simp add: upt_conv_Cons)
  qed
qed

lemma retryLoop_first_success:
  assumes "k < ElasticConnRetries" and "i \<le> k" and "newClient k = Inr c"
    and "\<forall>j. i \<le> j \<and> j < k \<longrightarrow> (\<exists>e. newClient j = Inl e)"
  shows "retryLoop newClient d i (c0, e0, evs) =
           (Some c, None, evs @ concat (map (\<lambda>j. [Attempt j, Sleep d]) [i ..< k]) @ [Attempt k])"
  using assms
proof (induction "k - i" arbitrary: i c0 e0 evs)
  case 0
  then have "i = k" by simp
  then show ?case
    using "0.prems" by (subst retryLoop.simps) simp
next
  case (Suc n)
  then have lt: "i < k" by simp
  then obtain e where fail: "newClient i = Inl e"
    using Suc.prems(4) by auto
  have "retryLoop newClient d (Suc i) (None, Some e, evs @ [Attempt i, Sleep d]) =
          (Some c, None, (evs @ [Attempt i, Sleep d]) @ concat (map (\<lambda>j. [Attempt j, Sleep d]) [Suc i ..< k]) @ [Attempt k])"
    using Suc.hyps(2) Suc.prems lt by (intro Suc.hyps(1)) auto
  then show ?case
    using lt Suc.prems(1) fail
    by (subst retryLoop.simps) (simp add: upt_conv_Cons)
qed

lemma attempts_of_append: "attempts_of (xs @ ys) = attempts_of xs @ attempts_of ys"
  by (induction xs rule: attempts_of.induct) auto

lemma attempts_of_rounds:
  "attempts_of (concat (map (\<lambda>j. [Attempt j, Sleep d]) js)) = js"
  by (induction js) auto

lemma NewElasticClient_loop:
  assumes "getClientCredentials w external = Inr (user, password, root)"
    and "clientCertificates w external = Inr certs"
  shows "NewElasticClient w url external =
     (case retryLoop (NewClient w \<lparr> URL = url, BasicAuthUser = user, BasicAuthPassword = password,
               RootCAs = Some root, Certificates = certs, DisableKeepAlives = True,
               Sniff = False, Healthcheck = False \<rparr>) 500000000 0 (None, None, []) of
        (esCli, err, events) \<Rightarrow> (Some \<lparr> client = esCli \<rparr>, err, events))"
  using assms by (simp add: NewElasticClient_def ParseDuration_interval)

lemma example_credentials:
  "getClientCredentials (example_world [(''elastic'', ''changeme'')] attempts) False =
     Inr (''elastic'', ''changeme'', ''PEM'')"
  by (simp add: getClientCredentials_def example_world_def getESRoots_def and_then_def library_def)

lemma example_certificates:
  "clientCertificates (example_world adminData attempts) False = Inr []"
  by (simp add: clientCertificates_def)

lemma example_admin_secret:
  "clientGet (example_world adminData attempts) ElasticsearchAdminUserSecret = Inr \<lparr> Data = adminData \<rparr>"
  by (simp add: example_world_def)

lemma getESRoots_errors:
  "getESRoots w secretName = Inl err \<Longrightarrow>
     err \<noteq> Errorf ''secret does not contain only 1 entry for credentials'' \<and>
     err \<noteq> Errorf ''username or password is empty''"
  by (auto simp: getESRoots_def and_then_def library_def split: sum.splits option.splits)

lemma getClientCredentials_single:
  assumes "clientGet w ElasticsearchAdminUserSecret = Inr esSecret" and "Data esSecret = [(k, v)]"
  shows "getClientCredentials w external =
     (if k = [] \<or> v = [] then Inl (Errorf ''username or password is empty'')
      else and_then (getESRoots w (if external then ExternalESPublicCertName
                                   else TigeraElasticsearchInternalCertSecret))
             (\<lambda>roots. Inr (k, v, roots)))"
  using assms by (simp add: getClientCredentials_def and_then_def library_def)

lemma getClientCredentials_not_single:
  assumes "clientGet w ElasticsearchAdminUserSecret = Inr esSecret" and "length (Data esSecret) \<noteq> 1"
  shows "getClientCredentials w external =
     Inl (Errorf ''secret does not contain only 1 entry for credentials'')"
  using assms by (simp add: getClientCredentials_def and_then_def library_def)

lemma length_one_iff: "(length xs = Suc 0) = (\<exists>k v. xs = [(k, v)])"
  by (cases xs) auto

subsection \<open>Facts about the policy engine\<close>

lemma createOrUpdatePolicies_puts:
  "\<exists>new. requests (snd (createOrUpdatePolicies es listPolicy)) = requests es @ new \<and>
     (\<forall>n body. IlmPutLifecycle n body \<in> set new \<longrightarrow> (\<exists>i \<in> fst ` set listPolicy. n = i @ ''_policy''))"
proof (induction listPolicy arbitrary: es)
  case Nil
  then show ?case by simp
next
  case (Cons entry listPolicy)
  obtain indexName pd where entry: "entry = (indexName, pd)"
    by (cases entry)
  let ?es1 = "es\<lparr>requests := requests es @ [IlmGetLifecycle (indexName @ ''_policy'')]\<rparr>"
  obtain new where new: "requests (snd (createOrUpdatePolicies ?es1 listPolicy)) = requests ?es1 @ new"
    and puts: "\<forall>n body. IlmPutLifecycle n body \<in> set new \<longrightarrow> (\<exists>i \<in> fst ` set listPolicy. n = i @ ''_policy'')"
    using Cons.IH [of ?es1] by blast
  show ?case
    using new puts
    by (auto simp: entry XPackIlmGetLifecycle_def applyILMPolicy_def XPackIlmPutLifecycle_def Let_def
        split: sum.splits option.splits prod.splits)
qed

lemma createOrUpdatePolicies_no_put:
  assumes "distinct (map fst listPolicy)" and "(indexName, pd) \<in> set listPolicy"
    and "lookupLifecycle (server es) (indexName @ ''_policy'') = Inr observed"
    and "extractPolicyDetails observed =
          Inr (rolloverAge pd, rolloverSize pd, deleteAge pd, readOnlyAfterRollover pd)"
  shows "\<exists>new. requests (snd (createOrUpdatePolicies es listPolicy)) = requests es @ new \<and>
     (\<forall>body. IlmPutLifecycle (indexName @ ''_policy'') body \<notin> set new)"
  using assms
proof (induction listPolicy arbitrary: es)
  case Nil
  then show ?case by simp
next
  case (Cons entry listPolicy)
  obtain i pdh where entry: "entry = (i, pdh)"
    by (cases entry)
  let ?es1 = "es\<lparr>requests := requests es @ [IlmGetLifecycle (i @ ''_policy'')]\<rparr>"
  have srv: "server ?es1 = server es" by simp
  show ?case
  proof (cases "i = indexName")
    case True
    then have same: "pdh = pd"
      using Cons.prems(1,2) entry by (auto simp: image_iff)
    have notin: "indexName \<notin> fst ` set listPolicy"
      using Cons.prems(1) entry True by simp
    obtain new where new: "requests (snd (createOrUpdatePolicies ?es1 listPolicy)) = requests ?es1 @ new"
      and puts: "\<forall>n body. IlmPutLifecycle n body \<in> set new \<longrightarrow> (\<exists>i \<in> fst ` set listPolicy. n = i @ ''_policy'')"
      using createOrUpdatePolicies_puts [of ?es1 listPolicy] by blast
    have "\<forall>body. IlmPutLifecycle (indexName @ ''_policy'') body \<notin> set new"
      using puts notin by auto
    then show ?thesis
      using new Cons.prems(3,4) True same
      by (simp add: entry XPackIlmGetLifecycle_def Let_def)
  next
    case False
    then have mem: "(indexName, pd) \<in> set listPolicy"
      using Cons.prems(2) entry by auto
    have dist: "distinct (map fst listPolicy)"
      using Cons.prems(1) by simp
    obtain new where new: "requests (snd (createOrUpdatePolicies ?es1 listPolicy)) = requests ?es1 @ new"
      and puts: "\<forall>body. IlmPutLifecycle (indexName @ ''_policy'') body \<notin> set new"
      using Cons.IH [of ?es1, OF dist mem] Cons.prems(3,4) srv by auto
    show ?thesis
      using new puts False
      by (auto simp: entry XPackIlmGetLifecycle_def applyILMPolicy_def XPackIlmPutLifecycle_def Let_def
          split: sum.splits option.splits prod.splits)
  qed
qed

lemma extract_buildILMPolicy:
  "extractPolicyDetails (json_member ''policy'' (policy (buildILMPolicy q totalEs pct share retention ro))) =
     Inr (rolloverAge (buildILMPolicy q totalEs pct share retention ro),
          rolloverSize (buildILMPolicy q totalEs pct share retention ro),
          deleteAge (buildILMPolicy q totalEs pct share retention ro),
          readOnlyAfterRollover (buildILMPolicy q totalEs pct share retention ro))"
  by (simp add: buildILMPolicy_def Let_def json_member_def extractPolicyDetails_def unmarshalPolicy_def
      and_then_def unmarshalStruct_def unmarshalString_def unmarshalPointer_def lookup_def)

lemma issued_no_put:
  assumes "distinct (map fst listPolicy)" and "(indexName, pd) \<in> set listPolicy"
    and "lookupLifecycle (server es) (indexName @ ''_policy'') = Inr observed"
    and "extractPolicyDetails observed =
          Inr (rolloverAge pd, rolloverSize pd, deleteAge pd, readOnlyAfterRollover pd)"
  shows "\<forall>body. IlmPutLifecycle (indexName @ ''_policy'') body \<notin>
            set (issued es (snd (createOrUpdatePolicies es listPolicy)))"
  using createOrUpdatePolicies_no_put [OF assms] by (auto simp: issued_def)

lemma lookup_after_apply:
  assumes "fst (applyILMPolicy es indexName pol) = None"
    and "failure (server es) (IlmGetLifecycle (indexName @ ''_policy'')) = None"
  shows "lookupLifecycle (server (snd (applyILMPolicy es indexName pol))) (indexName @ ''_policy'') =
           Inr (json_member ''policy'' pol)"
  using assms
  by (auto simp: applyILMPolicy_def XPackIlmPutLifecycle_def lookupLifecycle_def Let_def
      split: option.splits)

lemma createOrUpdatePolicies_one_apply:
  "\<exists>new. requests (snd (createOrUpdatePolicies es listPolicy)) = requests es @ new \<and>
     length (filter is_apply new) \<le> 1"
proof (induction listPolicy arbitrary: es)
  case Nil
  then show ?case by simp
next
  case (Cons entry listPolicy)
  obtain indexName pd where entry: "entry = (indexName, pd)"
    by (cases entry)
  let ?es1 = "es\<lparr>requests := requests es @ [IlmGetLifecycle (indexName @ ''_policy'')]\<rparr>"
  obtain new where new: "requests (snd (createOrUpdatePolicies ?es1 listPolicy)) = requests ?es1 @ new"
    and one: "length (filter is_apply new) \<le> 1"
    using Cons.IH [of ?es1] by blast
  show ?case
    using new one
    by (auto simp: entry XPackIlmGetLifecycle_def applyILMPolicy_def XPackIlmPutLifecycle_def Let_def
        split: sum.splits option.splits prod.splits)
qed

lemma createOrUpdatePolicies_at_most_one_apply:
  "length (filter is_apply (issued es (snd (createOrUpdatePolicies es listPolicy)))) \<le> 1"
  using createOrUpdatePolicies_one_apply [of es listPolicy] by (auto simp: issued_def)

subsection \<open>Facts about the synchronizer\<close>

lemma RoleNames_foldl:
  "foldl (\<lambda>names role. append_slice names (Name role)) (Some acc) roles = Some (acc @ map Name roles)"
  by (induction roles arbitrary: acc) (simp_all add: append_slice_def elems_def)

lemma RoleNames_eq: "RoleNames u = Some (map Name (elems (Roles u)))"
  by (simp add: RoleNames_def RoleNames_foldl)

lemma Do_valid:
  "Validate call = None \<Longrightarrow>
     Do es call = (failure (server es) call, es\<lparr>requests := requests es @ [call]\<rparr>)"
  by (simp add: Do_def)

lemma Do_requests:
  "requests (snd (Do es call)) = requests es \<or> requests (snd (Do es call)) = requests es @ [call]"
  by (simp add: Do_def split: option.splits)

lemma createRole_fst: "server es' = server es \<Longrightarrow> fst (createRole es' role) = fst (createRole es role)"
  by (simp add: createRole_def Do_def split: option.splits)

lemma createRole_ok:
  "fst (createRole es role) = None \<Longrightarrow>
     createRole es role =
       (None, es\<lparr>requests := requests es @ [SecurityPutRole (Name role) (Definition role)]\<rparr>)"
  by (auto simp: createRole_def Do_def Validate_def split: if_splits option.splits)

lemma createRole_requests:
  "requests (snd (createRole es role)) = requests es \<or>
   requests (snd (createRole es role)) = requests es @ [SecurityPutRole (Name role) (Definition role)]"
  using Do_requests [of es "SecurityPutRole (Name role) (Definition role)"]
  by (simp add: createRole_def)

lemma CreateRoles_requests:
  "\<exists>new. requests (snd (CreateRoles es roles)) = requests es @ new \<and>
     (\<forall>n body. SecurityPutUser n body \<notin> set new)"
proof (induction roles arbitrary: es)
  case Nil
  then show ?case by simp
next
  case (Cons role roles)
  obtain err es1 where step: "createRole es role = (err, es1)"
    by (cases "createRole es role")
  then have one: "requests es1 = requests es \<or>
      requests es1 = requests es @ [SecurityPutRole (Name role) (Definition role)]"
    using createRole_requests [of es role] by simp
  obtain new where new: "requests (snd (CreateRoles es1 roles)) = requests es1 @ new"
    and none: "\<forall>n body. SecurityPutUser n body \<notin> set new"
    using Cons.IH [of es1] by blast
  show ?case
  proof (cases err)
    case None
    then show ?thesis
      using step one new none by auto
  next
    case (Some e)
    then show ?thesis
      using step one by auto
  qed
qed

lemma CreateRoles_ok:
  "\<forall>r \<in> set roles. fst (createRole es r) = None \<Longrightarrow>
     CreateRoles es roles =
       (None, es\<lparr>requests := requests es @
                 map (\<lambda>r. SecurityPutRole (Name r) (Definition r)) roles\<rparr>)"
proof (induction roles arbitrary: es)
  case Nil
  then show ?case by simp
next
  case (Cons role roles)
  let ?es1 = "es\<lparr>requests := requests es @ [SecurityPutRole (Name role) (Definition role)]\<rparr>"
  have step: "createRole es role = (None, ?es1)"
    using Cons.prems by (simp add: createRole_ok)
  have "\<forall>r \<in> set roles. fst (createRole ?es1 r) = None"
    using Cons.prems createRole_fst [of ?es1 es] by simp
  then have "CreateRoles ?es1 roles =
      (None, ?es1\<lparr>requests := requests ?es1 @
                 map (\<lambda>r. SecurityPutRole (Name r) (Definition r)) roles\<rparr>)"
    by (rule Cons.IH)
  then show ?case
    using step by simp
qed

lemma elems_rolesToCreate:
  "elems (foldl (\<lambda>acc role. if Definition role \<noteq> None then append_slice acc role else acc) s roles) =
     elems s @ filter (\<lambda>role. Definition role \<noteq> None) roles"
  by (induction roles arbitrary: s) (simp_all add: append_slice_def elems_def)

lemma CreateUser_unfold:
  "CreateUser es user =
     (case CreateRoles es (filter (\<lambda>role. Definition role \<noteq> None) (elems (Roles user))) of
        (Some err, es1) \<Rightarrow> (Some err, es1)
      | (None, es1) \<Rightarrow>
          Do es1 (SecurityPutUser (Username user)
                    (JObj [(''password'', JStr (Password user)),
                           (''roles'', JArr (map JStr (map Name (elems (Roles user)))))])))"
proof -
  have empty: "elems (None :: Role slice) = []"
    by (simp add: elems_def)
  show ?thesis
    by (cases "filter (\<lambda>role. Definition role \<noteq> None) (elems (Roles user)) = []")
       (simp_all add: CreateUser_def Let_def elems_rolesToCreate empty RoleNames_eq marshalStrings_def
          del: not_None_eq split: prod.splits option.splits)
qed

lemma CreateUser_requests:
  "\<exists>new. requests (snd (CreateUser es user)) = requests es @ new \<and>
     (\<forall>n body. SecurityPutUser n body \<in> set new \<longrightarrow>
        n = Username user \<and>
        body = JObj [(''password'', JStr (Password user)),
                     (''roles'', JArr (map JStr (map Name (elems (Roles user)))))])"
proof -
  let ?rolesToCreate = "filter (\<lambda>role. Definition role \<noteq> None) (elems (Roles user))"
  let ?put = "SecurityPutUser (Username user)
      (JObj [(''password'', JStr (Password user)),
             (''roles'', JArr (map JStr (map Name (elems (Roles user)))))])"
  obtain new where new: "requests (snd (CreateRoles es ?rolesToCreate)) = requests es @ new"
    and none: "\<forall>n body. SecurityPutUser n body \<notin> set new"
    using CreateRoles_requests [of es ?rolesToCreate] by blast
  obtain err es1 where res: "CreateRoles es ?rolesToCreate = (err, es1)"
    by (cases "CreateRoles es ?rolesToCreate")
  then have req: "requests es1 = requests es @ new"
    using new by simp
  show ?thesis
  proof (cases err)
    case (Some e)
    then show ?thesis
      using res req none by (simp add: CreateUser_unfold del: not_None_eq)
  next
    case None
    then have "CreateUser es user = Do es1 ?put"
      using res by (simp add: CreateUser_unfold del: not_None_eq)
    then show ?thesis
      using Do_requests [of es1 ?put] req none by (auto simp del: not_None_eq)
  qed
qed

lemma CreateUser_ok:
  assumes "\<forall>r \<in> set (filter (\<lambda>role. Definition role \<noteq> None) (elems (Roles user))).
             fst (createRole es r) = None"
    and "Username user \<noteq> []"
  shows "CreateUser es user =
     (failure (server es)
        (SecurityPutUser (Username user)
           (JObj [(''password'', JStr (Password user)),
                  (''roles'', JArr (map JStr (map Name (elems (Roles user)))))])),
      es\<lparr>requests := requests es @
           map (\<lambda>r. SecurityPutRole (Name r) (Definition r))
             (filter (\<lambda>role. Definition role \<noteq> None) (elems (Roles user))) @
           [SecurityPutUser (Username user)
              (JObj [(''password'', JStr (Password user)),
                     (''roles'', JArr (map JStr (map Name (elems (Roles user)))))])]\<rparr>)"
  using CreateRoles_ok [OF assms(1)] assms(2)
  by (simp add: CreateUser_unfold Do_def Validate_def del: not_None_eq)

lemma deleteRole_fst: "server es' = server es \<Longrightarrow> fst (deleteRole es' role) = fst (deleteRole es role)"
  by (simp add: deleteRole_def Do_def split: option.splits)

lemma deleteRole_ok:
  "fst (deleteRole es role) = None \<Longrightarrow>
     deleteRole es role = (None, es\<lparr>requests := requests es @ [SecurityDeleteRole (Name role)]\<rparr>)"
  by (auto simp: deleteRole_def Do_def Validate_def split: if_splits option.splits)

lemma deleteRole_fail:
  "fst (deleteRole es role) = Some err \<Longrightarrow>
     deleteRole es role =
       (Some err, es\<lparr>requests := requests es @
           (if Name role = [] then [] else [SecurityDeleteRole (Name role)])\<rparr>)"
  by (auto simp: deleteRole_def Do_def Validate_def split: if_splits option.splits)

lemma DeleteRoles_ok:
  "\<forall>r \<in> set roles. fst (deleteRole es r) = None \<Longrightarrow>
     DeleteRoles es roles =
       (None, es\<lparr>requests := requests es @ map (\<lambda>r. SecurityDeleteRole (Name r)) roles\<rparr>)"
proof (induction roles arbitrary: es)
  case Nil
  then show ?case by simp
next
  case (Cons role roles)
  let ?es1 = "es\<lparr>requests := requests es @ [SecurityDeleteRole (Name role)]\<rparr>"
  have step: "deleteRole es role = (None, ?es1)"
    using Cons.prems by (simp add: deleteRole_ok)
  have "\<forall>r \<in> set roles. fst (deleteRole ?es1 r) = None"
    using Cons.prems deleteRole_fst [of ?es1 es] by simp
  then have "DeleteRoles ?es1 roles =
      (None, ?es1\<lparr>requests := requests ?es1 @ map (\<lambda>r. SecurityDeleteRole (Name r)) roles\<rparr>)"
    by (rule Cons.IH)
  then show ?case
    using step by simp
qed

lemma DeleteRoles_fail:
  "\<forall>p \<in> set pre. fst (deleteRole es p) = None \<Longrightarrow> fst (deleteRole es r) = Some err \<Longrightarrow>
     DeleteRoles es (pre @ r # post) =
       (Some err, es\<lparr>requests := requests es @ map (\<lambda>r. SecurityDeleteRole (Name r)) pre @
           (if Name r = [] then [] else [SecurityDeleteRole (Name r)])\<rparr>)"
proof (induction pre arbitrary: es)
  case Nil
  then show ?case
    using deleteRole_fail [of es r err] by simp
next
  case (Cons role pre)
  let ?es1 = "es\<lparr>requests := requests es @ [SecurityDeleteRole (Name role)]\<rparr>"
  have step: "deleteRole es role = (None, ?es1)"
    using Cons.prems by (simp add: deleteRole_ok)
  have "\<forall>p \<in> set pre. fst (deleteRole ?es1 p) = None" and "fst (deleteRole ?es1 r) = Some err"
    using Cons.prems deleteRole_fst [of ?es1 es] by simp_all
  then have "DeleteRoles ?es1 (pre @ r # post) =
      (Some err, ?es1\<lparr>requests := requests ?es1 @ map (\<lambda>r. SecurityDeleteRole (Name r)) pre @
           (if Name r = [] then [] else [SecurityDeleteRole (Name r)])\<rparr>)"
    by (rule Cons.IH)
  then show ?case
    using step by simp
qed

lemma DeleteUser_after_roles:
  "\<forall>r \<in> set (elems (Roles user)). fst (deleteRole es r) = None \<Longrightarrow>
     DeleteUser es user =
       Do (es\<lparr>requests := requests es @
              map (\<lambda>r. SecurityDeleteRole (Name r)) (elems (Roles user))\<rparr>)
          (SecurityDeleteUser (Username user))"
  using DeleteRoles_ok [of "elems (Roles user)" es] by (simp add: DeleteUser_def)

section \<open>Verified properties\<close>

subsection \<open>Rollover age\<close>

text \<open>
  C4.  For every integer \<open>retention\<close> the rollover age is \<open>"1h"\<close> when
  \<open>retention \<le> 0\<close>, \<open>"1d"\<close> when \<open>0 < retention < 4\<close>, and otherwise the decimal numeral
  of \<open>\<lfloor>retention / 4\<rfloor>\<close> followed by \<open>d\<close> (Go's truncating division agrees with the
  floor there).  In particular the ages for 0, 1 and 8 days are \<open>"1h"\<close>, \<open>"1d"\<close>, \<open>"2d"\<close>.
\<close>

theorem calculateRolloverAge_spec:
  "(retention \<le> 0 \<longrightarrow> calculateRolloverAge retention = ''1h'') \<and>
   (0 < retention \<and> retention < 4 \<longrightarrow> calculateRolloverAge retention = ''1d'') \<and>
   (4 \<le> retention \<longrightarrow>
      calculateRolloverAge retention = sprintf_d (retention div 4) @ ''d'' \<and>
      atoi (butlast (calculateRolloverAge retention)) = Some (retention div 4) \<and>
      last (calculateRolloverAge retention) = CHR ''d'') \<and>
   calculateRolloverAge 0 = ''1h'' \<and>
   calculateRolloverAge 1 = ''1d'' \<and>
   calculateRolloverAge 8 = ''2d''"
proof -
  have trunc: "retention sdiv 4 = retention div 4" if "4 \<le> retention"
    using that by (simp add: signed_divide_int_def sgn_if)
  have eight: "(8::int) sdiv 4 = 2"
    by (simp add: signed_divide_int_def)
  have general: "calculateRolloverAge retention = sprintf_d (retention div 4) @ ''d''"
    if "4 \<le> retention"
    using that trunc by (simp add: calculateRolloverAge_def ElasticsearchRetentionFactor_def)
  have two: "sprintf_d 2 = ''2''"
    by (simp add: sprintf_d_small digit_char_def)
  show ?thesis
    using general
    by (simp add: atoi_sprintf_d butlast_append)
       (simp add: calculateRolloverAge_def ElasticsearchRetentionFactor_def eight two)
qed

theorem calculateRolloverAge_spec_witness:
  "(- 5 :: int) \<le> 0 \<and> calculateRolloverAge (- 5) = ''1h'' \<and>
   (0 :: int) < 3 \<and> (3 :: int) < 4 \<and> calculateRolloverAge 3 = ''1d'' \<and>
   (4 :: int) \<le> 9 \<and> calculateRolloverAge 9 = ''2d'' \<and>
   atoi (butlast (calculateRolloverAge 9)) = Some 2"
proof -
  have two: "sprintf_d (9 div 4) = ''2''"
    by (simp add: sprintf_d_small digit_char_def)
  have "calculateRolloverAge (- 5) = ''1h''"
    using calculateRolloverAge_spec [of "- 5"] by simp
  moreover have "calculateRolloverAge 3 = ''1d''"
    using calculateRolloverAge_spec [of 3] by simp
  moreover have "calculateRolloverAge 9 = ''2d''"
    using calculateRolloverAge_spec [of 9] two by simp
  moreover have "atoi (butlast (calculateRolloverAge 9)) = Some 2"
    using calculateRolloverAge_spec [of 9] by (simp add: atoi_sprintf_d)
  ultimately show ?thesis by simp
qed

subsection \<open>Delete age\<close>

text \<open>
  C5.  For every integer \<open>retention\<close>, also zero or negative, the delete minimum age of
  the synthesized policy is the decimal numeral of \<open>retention\<close> itself followed by
  \<open>d\<close>, both in the policy detail and at \<open>policy.phases.delete.min_age\<close> of the
  document; retention 0 gives \<open>"0d"\<close>, retention -3 gives \<open>"-3d"\<close>.  Nothing is clamped:
  the numeral reads back as \<open>retention\<close>.
\<close>

theorem buildILMPolicy_deleteAge:
  "deleteAge (buildILMPolicy q totalEs pct share retention ro) = sprintf_d retention @ ''d'' \<and>
   json_member ''min_age'' (json_member ''delete'' (json_member ''phases'' (json_member ''policy''
       (policy (buildILMPolicy q totalEs pct share retention ro)))))
     = JStr (sprintf_d retention @ ''d'') \<and>
   atoi (butlast (deleteAge (buildILMPolicy q totalEs pct share retention ro))) = Some retention \<and>
   deleteAge (buildILMPolicy q totalEs pct share 0 ro) = ''0d'' \<and>
   deleteAge (buildILMPolicy q totalEs pct share (- 3) ro) = ''-3d''"
proof -
  have zero: "sprintf_d 0 = ''0''"
    by (simp add: sprintf_d_small digit_char_def)
  have minus: "sprintf_d (- 3) = ''-3''"
    by (simp add: sprintf_d_def nat_digits.simps digit_char_def)
  show ?thesis
    by (simp add: buildILMPolicy_def Let_def json_member_def atoi_sprintf_d butlast_append zero minus)
qed

theorem buildILMPolicy_deleteAge_witness:
  "deleteAge (buildILMPolicy (\<lambda>t (a :: int) b. t) 100 1 1 0 True) = ''0d'' \<and>
   json_member ''min_age'' (json_member ''delete'' (json_member ''phases'' (json_member ''policy''
       (policy (buildILMPolicy (\<lambda>t (a :: int) b. t) 100 1 1 (- 3) False))))) = JStr ''-3d''"
proof -
  have minus: "sprintf_d (- 3) = ''-3''"
    by (simp add: sprintf_d_def nat_digits.simps digit_char_def)
  have "deleteAge (buildILMPolicy (\<lambda>t (a :: int) b. t) 100 1 1 0 True) = ''0d''"
    using buildILMPolicy_deleteAge [of "\<lambda>t (a :: int) b. t" 100 1 1 0 True]
    by (elim conjE)
  moreover have "json_member ''min_age'' (json_member ''delete'' (json_member ''phases'' (json_member ''policy''
       (policy (buildILMPolicy (\<lambda>t (a :: int) b. t) 100 1 1 (- 3) False))))) = JStr ''-3d''"
    using buildILMPolicy_deleteAge [of "\<lambda>t (a :: int) b. t" 100 1 1 "- 3" False] minus
    by simp
  ultimately show ?thesis by simp
qed

subsection \<open>Credential resolution\<close>

text \<open>
  C6, as amended.  Given that the admin secret is fetched, credential resolution fails
  with one of its two credential errors exactly when the secret does not hold exactly
  one entry, or the key or the value of its single entry is empty.  In each of these
  cases \<open>NewElasticClient\<close> returns a nil client with that error and never calls
  \<open>elastic.NewClient\<close>.  Otherwise the key is returned as the user name and the value
  as the password if the root certificates are resolved, and the error of that step
  is returned, with no credentials, if they are not.
\<close>

theorem getClientCredentials_config_error:
  assumes "clientGet w ElasticsearchAdminUserSecret = Inr esSecret"
  shows "((getClientCredentials w external =
             Inl (Errorf ''secret does not contain only 1 entry for credentials'') \<or>
           getClientCredentials w external = Inl (Errorf ''username or password is empty''))
          = (length (Data esSecret) \<noteq> 1 \<or>
             (\<exists>k v. Data esSecret = [(k, v)] \<and> (k = [] \<or> v = [])))) \<and>
         (length (Data esSecret) \<noteq> 1 \<longrightarrow>
            NewElasticClient w url external =
              (None, Some (Errorf ''secret does not contain only 1 entry for credentials''), [])) \<and>
         (Data esSecret = [(k, v)] \<and> (k = [] \<or> v = []) \<longrightarrow>
            NewElasticClient w url external =
              (None, Some (Errorf ''username or password is empty''), [])) \<and>
         (Data esSecret = [(k, v)] \<and> k \<noteq> [] \<and> v \<noteq> [] \<longrightarrow>
            getClientCredentials w external =
              (case getESRoots w (if external then ExternalESPublicCertName
                                  else TigeraElasticsearchInternalCertSecret) of
                 Inl err \<Rightarrow> Inl err
               | Inr roots \<Rightarrow> Inr (k, v, roots)))"
proof (intro conjI impI)
  show "(getClientCredentials w external =
             Inl (Errorf ''secret does not contain only 1 entry for credentials'') \<or>
           getClientCredentials w external = Inl (Errorf ''username or password is empty''))
          = (length (Data esSecret) \<noteq> 1 \<or>
             (\<exists>k v. Data esSecret = [(k, v)] \<and> (k = [] \<or> v = [])))"
  proof (cases "length (Data esSecret) = 1")
    case False
    then show ?thesis
      using getClientCredentials_not_single [OF assms, of external] by simp
  next
    case True
    then obtain k v where one: "Data esSecret = [(k, v)]"
      by (auto simp: length_one_iff)
    show ?thesis
    proof (cases "k = [] \<or> v = []")
      case True
      then show ?thesis
        using getClientCredentials_single [OF assms one, of external] one by simp
    next
      case False
      let ?roots = "getESRoots w (if external then ExternalESPublicCertName
                                  else TigeraElasticsearchInternalCertSecret)"
      have res: "getClientCredentials w external = and_then ?roots (\<lambda>roots. Inr (k, v, roots))"
        using getClientCredentials_single [OF assms one, of external] False by simp
      have lhs: "\<not> (getClientCredentials w external =
             Inl (Errorf ''secret does not contain only 1 entry for credentials'') \<or>
           getClientCredentials w external = Inl (Errorf ''username or password is empty''))"
      proof (cases ?roots)
        case (Inl err)
        then show ?thesis
          using res getESRoots_errors [OF Inl] by (simp add: and_then_def)
      next
        case (Inr roots)
        then show ?thesis
          using res by (simp add: and_then_def)
      qed
      have rhs: "\<not> (length (Data esSecret) \<noteq> 1 \<or>
             (\<exists>k v. Data esSecret = [(k, v)] \<and> (k = [] \<or> v = [])))"
        using one False by simp
      show ?thesis
        using lhs rhs by simp
    qed
  qed
next
  assume "length (Data esSecret) \<noteq> 1"
  then show "NewElasticClient w url external =
      (None, Some (Errorf ''secret does not contain only 1 entry for credentials''), [])"
    using getClientCredentials_not_single [OF assms, of external]
    by (simp add: NewElasticClient_def)
next
  assume "Data esSecret = [(k, v)] \<and> (k = [] \<or> v = [])"
  then show "NewElasticClient w url external =
      (None, Some (Errorf ''username or password is empty''), [])"
    using getClientCredentials_single [OF assms, of k v external]
    by (auto simp: NewElasticClient_def)
next
  assume "Data esSecret = [(k, v)] \<and> k \<noteq> [] \<and> v \<noteq> []"
  then show "getClientCredentials w external =
      (case getESRoots w (if external then ExternalESPublicCertName
                          else TigeraElasticsearchInternalCertSecret) of
         Inl err \<Rightarrow> Inl err
       | Inr roots \<Rightarrow> Inr (k, v, roots))"
    using getClientCredentials_single [OF assms, of k v external]
    by (simp add: and_then_def)
qed

theorem getClientCredentials_config_error_witness:
  "NewElasticClient (example_world [] (\<lambda>i. Inr fresh_connection)) ''https://es:9200'' False =
     (None, Some (Errorf ''secret does not contain only 1 entry for credentials''), []) \<and>
   NewElasticClient (example_world [(''elastic'', ''changeme''), (''other'', ''x'')] (\<lambda>i. Inr fresh_connection))
       ''https://es:9200'' False =
     (None, Some (Errorf ''secret does not contain only 1 entry for credentials''), []) \<and>
   NewElasticClient (example_world [(''elastic'', [])] (\<lambda>i. Inr fresh_connection)) ''https://es:9200'' False =
     (None, Some (Errorf ''username or password is empty''), []) \<and>
   getClientCredentials (example_world [(''elastic'', ''changeme'')] (\<lambda>i. Inr fresh_connection)) False =
     Inr (''elastic'', ''changeme'', ''PEM'')"
proof -
  let ?ok = "\<lambda>i::nat. Inr fresh_connection :: error + elastic_Client"
  have a: "NewElasticClient (example_world [] ?ok) ''https://es:9200'' False =
     (None, Some (Errorf ''secret does not contain only 1 entry for credentials''), [])"
    using getClientCredentials_config_error [OF example_admin_secret, of "[]" ?ok False "''https://es:9200''"]
    by simp
  have b: "NewElasticClient (example_world [(''elastic'', ''changeme''), (''other'', ''x'')] ?ok)
       ''https://es:9200'' False =
     (None, Some (Errorf ''secret does not contain only 1 entry for credentials''), [])"
    using getClientCredentials_config_error [OF example_admin_secret,
        of "[(''elastic'', ''changeme''), (''other'', ''x'')]" ?ok False "''https://es:9200''"]
    by simp
  have c: "NewElasticClient (example_world [(''elastic'', [])] ?ok) ''https://es:9200'' False =
     (None, Some (Errorf ''username or password is empty''), [])"
    using getClientCredentials_config_error [OF example_admin_secret,
        of "[(''elastic'', [])]" ?ok False "''https://es:9200''" "''elastic''" "[]"]
    by simp
  have roots: "getESRoots (example_world [(''elastic'', ''changeme'')] ?ok) TigeraElasticsearchInternalCertSecret
      = Inr ''PEM''"
    by (simp add: getESRoots_def example_world_def and_then_def library_def)
  have d: "getClientCredentials (example_world [(''elastic'', ''changeme'')] ?ok) False =
     Inr (''elastic'', ''changeme'', ''PEM'')"
    using getClientCredentials_config_error [OF example_admin_secret,
        of "[(''elastic'', ''changeme'')]" ?ok False "''https://es:9200''" "''elastic''" "''changeme''"] roots
    by simp
  show ?thesis using a b c d by simp
qed

text \<open>
  C6 as stated fails where the admin secret holds exactly one entry with a non-empty
  key and value but the CA secret has no \<open>tls.crt\<close>: credential resolution returns an
  error and neither the key nor the value, and no client is constructed.
\<close>

theorem getClientCredentials_counterexample:
  "clientGet missing_ca_world ElasticsearchAdminUserSecret =
     Inr \<lparr> Data = [(''elastic'', ''changeme'')] \<rparr> \<and>
   getClientCredentials missing_ca_world False =
     Inl (Errorf ''couldn't find tls.crt in Elasticsearch secret'') \<and>
   NewElasticClient missing_ca_world ''https://es:9200'' False =
     (None, Some (Errorf ''couldn't find tls.crt in Elasticsearch secret''), [])"
  by (simp add: missing_ca_world_def example_world_def getClientCredentials_def getESRoots_def
      NewElasticClient_def and_then_def library_def)

subsection \<open>Bounded retry\<close>

text \<open>
  C7.  Once credentials and certificates are resolved: when each of the ten calls of
  \<open>elastic.NewClient\<close> fails, exactly the attempts 0 to 9 are made, each followed by
  a sleep of 500 ms, and the error returned is that of the tenth attempt; when attempt
  \<open>k\<close> is the first to succeed, the attempts 0 to \<open>k\<close> are made, with a sleep of
  500 ms after each failure, and the client of attempt \<open>k\<close> is returned with no
  error.
\<close>

theorem NewElasticClient_retry:
  assumes "getClientCredentials w external = Inr (user, password, root)"
    and "clientCertificates w external = Inr certs"
    and "options = \<lparr> URL = url, BasicAuthUser = user, BasicAuthPassword = password,
               RootCAs = Some root, Certificates = certs, DisableKeepAlives = True,
               Sniff = False, Healthcheck = False \<rparr>"
  shows "((\<forall>i < 10. NewClient w options i = Inl (e i)) \<longrightarrow>
            snd (NewElasticClient w url external) =
              (Some (e 9), concat (map (\<lambda>i. [Attempt i, Sleep 500000000]) [0 ..< 10])) \<and>
            attempts_of (snd (snd (NewElasticClient w url external))) = [0 ..< 10]) \<and>
         (k < 10 \<and> NewClient w options k = Inr c \<and> (\<forall>i < k. \<exists>err. NewClient w options i = Inl err) \<longrightarrow>
            NewElasticClient w url external =
              (Some \<lparr> client = Some c \<rparr>, None,
               concat (map (\<lambda>i. [Attempt i, Sleep 500000000]) [0 ..< k]) @ [Attempt k]) \<and>
            attempts_of (snd (snd (NewElasticClient w url external))) = [0 ..< k] @ [k])"
proof (intro conjI impI)
  assume all: "\<forall>i < 10. NewClient w options i = Inl (e i)"
  have loop: "retryLoop (NewClient w options) 500000000 0 (None, None, []) =
      (None, Some (e 9), concat (map (\<lambda>i. [Attempt i, Sleep 500000000]) [0 ..< 10]))"
    using retryLoop_all_fail [of 0 "NewClient w options" e 500000000 None None "[]"] all
    by (simp add: ElasticConnRetries_def)
  show "snd (NewElasticClient w url external) =
      (Some (e 9), concat (map (\<lambda>i. [Attempt i, Sleep 500000000]) [0 ..< 10]))"
    using NewElasticClient_loop [OF assms(1,2), of url] loop assms(3) by simp
  then show "attempts_of (snd (snd (NewElasticClient w url external))) = [0 ..< 10]"
    by (simp only: snd_conv attempts_of_rounds)
next
  assume ok: "k < 10 \<and> NewClient w options k = Inr c \<and> (\<forall>i < k. \<exists>err. NewClient w options i = Inl err)"
  have loop: "retryLoop (NewClient w options) 500000000 0 (None, None, []) =
      (Some c, None, concat (map (\<lambda>i. [Attempt i, Sleep 500000000]) [0 ..< k]) @ [Attempt k])"
    using retryLoop_first_success [of k 0 "NewClient w options" c 500000000 None None "[]"] ok
    by (simp add: ElasticConnRetries_def)
  show res: "NewElasticClient w url external =
      (Some \<lparr> client = Some c \<rparr>, None,
       concat (map (\<lambda>i. [Attempt i, Sleep 500000000]) [0 ..< k]) @ [Attempt k])"
    using NewElasticClient_loop [OF assms(1,2), of url] loop assms(3) by simp
  show "attempts_of (snd (snd (NewElasticClient w url external))) = [0 ..< k] @ [k]"
    by (simp only: res snd_conv attempts_of_append attempts_of_rounds) simp
qed

theorem NewElasticClient_retry_witness:
  "snd (NewElasticClient (example_world [(''elastic'', ''changeme'')] (\<lambda>i. Inl (ElasticError 503 ''unavailable'')))
          ''https://es:9200'' False) =
     (Some (ElasticError 503 ''unavailable''),
      concat (map (\<lambda>i. [Attempt i, Sleep 500000000]) [0 ..< 10])) \<and>
   NewElasticClient (example_world [(''elastic'', ''changeme'')]
          (\<lambda>i. if i < 2 then Inl (ElasticError 503 ''unavailable'') else Inr fresh_connection))
          ''https://es:9200'' False =
     (Some \<lparr> client = Some fresh_connection \<rparr>, None,
      [Attempt 0, Sleep 500000000, Attempt 1, Sleep 500000000, Attempt 2])"
proof -
  let ?fail = "\<lambda>i::nat. Inl (ElasticError 503 ''unavailable'') :: error + elastic_Client"
  let ?late = "\<lambda>i::nat. if i < 2 then Inl (ElasticError 503 ''unavailable'') else Inr fresh_connection"
  let ?options = "\<lparr> URL = ''https://es:9200'', BasicAuthUser = ''elastic'', BasicAuthPassword = ''changeme'',
               RootCAs = Some ''PEM'', Certificates = [] :: string list, DisableKeepAlives = True,
               Sniff = False, Healthcheck = False \<rparr>"
  have a: "snd (NewElasticClient (example_world [(''elastic'', ''changeme'')] ?fail) ''https://es:9200'' False) =
     (Some (ElasticError 503 ''unavailable''),
      concat (map (\<lambda>i. [Attempt i, Sleep 500000000]) [0 ..< 10]))"
    using NewElasticClient_retry [OF example_credentials example_certificates,
        of ?options "''https://es:9200''" ?fail "\<lambda>i. ElasticError 503 ''unavailable''" 0 fresh_connection]
    by (simp add: example_world_def)
  have b: "NewElasticClient (example_world [(''elastic'', ''changeme'')] ?late) ''https://es:9200'' False =
     (Some \<lparr> client = Some fresh_connection \<rparr>, None,
      [Attempt 0, Sleep 500000000, Attempt 1, Sleep 500000000, Attempt 2])"
    using NewElasticClient_retry [OF example_credentials example_certificates,
        of ?options "''https://es:9200''" ?late "\<lambda>i. ElasticError 503 ''unavailable''" 2 fresh_connection]
    by (simp add: example_world_def upt_conv_Cons)
  show ?thesis using a b by simp
qed

text \<open>
  C10.  When all ten attempts fail, the \<open>ElasticClient\<close> returned with the error is not
  the nil interface: it is an \<open>esClient\<close> whose inner client is nil.
\<close>

theorem NewElasticClient_exhausted_client:
  assumes "getClientCredentials w external = Inr (user, password, root)"
    and "clientCertificates w external = Inr certs"
    and "options = \<lparr> URL = url, BasicAuthUser = user, BasicAuthPassword = password,
               RootCAs = Some root, Certificates = certs, DisableKeepAlives = True,
               Sniff = False, Healthcheck = False \<rparr>"
    and "\<forall>i < 10. NewClient w options i = Inl (e i)"
  shows "fst (NewElasticClient w url external) = Some \<lparr> client = None \<rparr> \<and>
         fst (NewElasticClient w url external) \<noteq> None \<and>
         fst (snd (NewElasticClient w url external)) = Some (e 9)"
proof -
  have loop: "retryLoop (NewClient w options) 500000000 0 (None, None, []) =
      (None, Some (e 9), concat (map (\<lambda>i. [Attempt i, Sleep 500000000]) [0 ..< 10]))"
    using retryLoop_all_fail [of 0 "NewClient w options" e 500000000 None None "[]"] assms(4)
    by (simp add: ElasticConnRetries_def)
  show ?thesis
    using NewElasticClient_loop [OF assms(1,2), of url] loop assms(3) by simp
qed

theorem NewElasticClient_exhausted_client_witness:
  "fst (NewElasticClient (example_world [(''elastic'', ''changeme'')] (\<lambda>i. Inl (ElasticError 503 ''unavailable'')))
          ''https://es:9200'' False) = Some \<lparr> client = None \<rparr> \<and>
   fst (snd (NewElasticClient (example_world [(''elastic'', ''changeme'')] (\<lambda>i. Inl (ElasticError 503 ''unavailable'')))
          ''https://es:9200'' False)) = Some (ElasticError 503 ''unavailable'')"
proof -
  let ?fail = "\<lambda>i::nat. Inl (ElasticError 503 ''unavailable'') :: error + elastic_Client"
  let ?options = "\<lparr> URL = ''https://es:9200'', BasicAuthUser = ''elastic'', BasicAuthPassword = ''changeme'',
               RootCAs = Some ''PEM'', Certificates = [] :: string list, DisableKeepAlives = True,
               Sniff = False, Healthcheck = False \<rparr>"
  have "\<forall>i < 10. NewClient (example_world [(''elastic'', ''changeme'')] ?fail) ?options i =
          Inl (ElasticError 503 ''unavailable'')"
    by (simp add: example_world_def)
  from NewElasticClient_exhausted_client [OF example_credentials example_certificates refl this]
  show ?thesis by simp
qed

subsection \<open>Policy diff and apply\<close>

text \<open>
  C1, as the code has it.  With two categories whose policies are both absent from the
  server, reconciliation fetches the first, applies it and returns: the second
  category is neither fetched nor created.
\<close>

theorem createOrUpdatePolicies_early_return:
  "createOrUpdatePolicies fresh_connection [(''flows'', sample_detail), (''dns'', sample_detail)] =
     (None,
      \<lparr> server = \<lparr> lifecycles = [''flows_policy'' \<mapsto> json_member ''policy'' (policy sample_detail)],
                    failure = (\<lambda>call. None) \<rparr>,
        requests = [IlmGetLifecycle ''flows_policy'',
                    IlmPutLifecycle ''flows_policy'' (policy sample_detail)] \<rparr>)"
  by (simp add: fresh_connection_def XPackIlmGetLifecycle_def lookupLifecycle_def IsNotFound_def
      applyILMPolicy_def XPackIlmPutLifecycle_def Let_def)

text \<open>
  C2.  For a category of the map whose observed policy decodes to the four desired
  values (rollover age, rollover size, delete age, read-only), reconciliation sends no
  apply for that category's policy.  Hence, once a policy built by \<open>buildILMPolicy\<close>
  has been applied for a category and the server returns it, reconciling a map that
  holds the same detail for that category sends no apply for it.
\<close>

theorem createOrUpdatePolicies_no_write_when_equal:
  "(distinct (map fst listPolicy) \<and> (indexName, pd) \<in> set listPolicy \<and>
    lookupLifecycle (server es) (indexName @ ''_policy'') = Inr observed \<and>
    extractPolicyDetails observed =
      Inr (rolloverAge pd, rolloverSize pd, deleteAge pd, readOnlyAfterRollover pd) \<longrightarrow>
    (\<forall>body. IlmPutLifecycle (indexName @ ''_policy'') body \<notin>
        set (issued es (snd (createOrUpdatePolicies es listPolicy))))) \<and>
   (distinct (map fst listPolicy) \<and> (indexName, pd) \<in> set listPolicy \<and>
    pd = buildILMPolicy q totalEs pct share retention ro \<and>
    fst (applyILMPolicy es indexName (policy pd)) = None \<and>
    failure (server es) (IlmGetLifecycle (indexName @ ''_policy'')) = None \<longrightarrow>
    (\<forall>body. IlmPutLifecycle (indexName @ ''_policy'') body \<notin>
        set (issued (snd (applyILMPolicy es indexName (policy pd)))
               (snd (createOrUpdatePolicies (snd (applyILMPolicy es indexName (policy pd))) listPolicy)))))"
proof (intro conjI impI)
  assume "distinct (map fst listPolicy) \<and> (indexName, pd) \<in> set listPolicy \<and>
    lookupLifecycle (server es) (indexName @ ''_policy'') = Inr observed \<and>
    extractPolicyDetails observed =
      Inr (rolloverAge pd, rolloverSize pd, deleteAge pd, readOnlyAfterRollover pd)"
  then show "\<forall>body. IlmPutLifecycle (indexName @ ''_policy'') body \<notin>
        set (issued es (snd (createOrUpdatePolicies es listPolicy)))"
    using issued_no_put [of listPolicy indexName pd es observed] by simp
next
  let ?es' = "snd (applyILMPolicy es indexName (policy pd))"
  assume h: "distinct (map fst listPolicy) \<and> (indexName, pd) \<in> set listPolicy \<and>
    pd = buildILMPolicy q totalEs pct share retention ro \<and>
    fst (applyILMPolicy es indexName (policy pd)) = None \<and>
    failure (server es) (IlmGetLifecycle (indexName @ ''_policy'')) = None"
  then have d: "distinct (map fst listPolicy)" and m: "(indexName, pd) \<in> set listPolicy"
    and b: "pd = buildILMPolicy q totalEs pct share retention ro"
    and a: "fst (applyILMPolicy es indexName (policy pd)) = None"
    and f: "failure (server es) (IlmGetLifecycle (indexName @ ''_policy'')) = None"
    by auto
  have stored: "lookupLifecycle (server ?es') (indexName @ ''_policy'') =
      Inr (json_member ''policy'' (policy pd))"
    by (rule lookup_after_apply [OF a f])
  have same: "extractPolicyDetails (json_member ''policy'' (policy pd)) =
      Inr (rolloverAge pd, rolloverSize pd, deleteAge pd, readOnlyAfterRollover pd)"
    unfolding b by (rule extract_buildILMPolicy)
  show "\<forall>body. IlmPutLifecycle (indexName @ ''_policy'') body \<notin>
        set (issued ?es' (snd (createOrUpdatePolicies ?es' listPolicy)))"
    by (rule issued_no_put [OF d m stored same])
qed

theorem createOrUpdatePolicies_no_write_when_equal_witness:
  "distinct (map fst [(''flows'', sample_detail), (''dns'', sample_detail)]) \<and>
   (''flows'', sample_detail) \<in> set [(''flows'', sample_detail), (''dns'', sample_detail)] \<and>
   fst (applyILMPolicy fresh_connection ''flows'' (policy sample_detail)) = None \<and>
   failure (server fresh_connection) (IlmGetLifecycle (''flows'' @ ''_policy'')) = None \<and>
   lookupLifecycle (server (snd (applyILMPolicy fresh_connection ''flows'' (policy sample_detail))))
       (''flows'' @ ''_policy'') = Inr (json_member ''policy'' (policy sample_detail)) \<and>
   extractPolicyDetails (json_member ''policy'' (policy sample_detail)) =
     Inr (rolloverAge sample_detail, rolloverSize sample_detail, deleteAge sample_detail,
          readOnlyAfterRollover sample_detail) \<and>
   (\<forall>body. IlmPutLifecycle (''flows'' @ ''_policy'') body \<notin>
      set (issued (snd (applyILMPolicy fresh_connection ''flows'' (policy sample_detail)))
             (snd (createOrUpdatePolicies
                     (snd (applyILMPolicy fresh_connection ''flows'' (policy sample_detail)))
                     [(''flows'', sample_detail), (''dns'', sample_detail)]))))"
proof -
  let ?applied = "snd (applyILMPolicy fresh_connection ''flows'' (policy sample_detail))"
  have h1: "distinct (map fst [(''flows'', sample_detail), (''dns'', sample_detail)])"
    by simp
  have h2: "(''flows'', sample_detail) \<in> set [(''flows'', sample_detail), (''dns'', sample_detail)]"
    by simp
  have h3: "sample_detail = buildILMPolicy (\<lambda>t (a :: int) b. t) 100 1 1 8 True"
    by (simp add: sample_detail_def)
  have h4: "fst (applyILMPolicy fresh_connection ''flows'' (policy sample_detail)) = None"
    by (simp add: applyILMPolicy_def XPackIlmPutLifecycle_def fresh_connection_def Let_def)
  have h5: "failure (server fresh_connection) (IlmGetLifecycle (''flows'' @ ''_policy'')) = None"
    by (simp add: fresh_connection_def)
  have h6: "lookupLifecycle (server ?applied) (''flows'' @ ''_policy'') =
      Inr (json_member ''policy'' (policy sample_detail))"
    by (rule lookup_after_apply [OF h4 h5])
  have h7: "extractPolicyDetails (json_member ''policy'' (policy sample_detail)) =
     Inr (rolloverAge sample_detail, rolloverSize sample_detail, deleteAge sample_detail,
          readOnlyAfterRollover sample_detail)"
    unfolding sample_detail_def by (rule extract_buildILMPolicy)
  have observed: "\<forall>body. IlmPutLifecycle (''flows'' @ ''_policy'') body \<notin>
      set (issued ?applied
             (snd (createOrUpdatePolicies ?applied [(''flows'', sample_detail), (''dns'', sample_detail)])))"
    by (rule createOrUpdatePolicies_no_write_when_equal
          [where listPolicy = "[(''flows'', sample_detail), (''dns'', sample_detail)]"
             and indexName = "''flows''" and pd = sample_detail and es = ?applied
             and observed = "json_member ''policy'' (policy sample_detail)",
           THEN conjunct1, THEN mp])
       (intro conjI h1 h2 h6 h7)
  have second: "\<forall>body. IlmPutLifecycle (''flows'' @ ''_policy'') body \<notin>
      set (issued ?applied
             (snd (createOrUpdatePolicies ?applied [(''flows'', sample_detail), (''dns'', sample_detail)])))"
    by (rule createOrUpdatePolicies_no_write_when_equal
          [where listPolicy = "[(''flows'', sample_detail), (''dns'', sample_detail)]"
             and indexName = "''flows''" and pd = sample_detail and es = fresh_connection
             and q = "\<lambda>t (a :: int) b. t" and totalEs = 100 and pct = 1 and share = 1
             and retention = 8 and ro = True,
           THEN conjunct2, THEN mp])
       (intro conjI h1 h2 h3 h4 h5)
  show ?thesis
    using h1 h2 h4 h5 h6 h7 observed second by (intro conjI)
qed

subsection \<open>Principals\<close>

text \<open>
  C8.  \<open>RoleNames\<close> is never the nil slice: it is the list of the names of the
  principal's roles, in order, empty when there is none (whether \<open>Roles\<close> is nil or
  empty).  Every principal upsert that \<open>CreateUser\<close> sends carries this list as a JSON
  array in \<open>roles\<close>, never \<open>null\<close>.  When the user name is not empty and the upsert
  of every role that has a definition succeeds, \<open>CreateUser\<close> sends those role upserts
  in order and then exactly this principal upsert, with the names of all roles; with
  no roles it sends only the principal upsert, with \<open>roles\<close> the empty array.
\<close>

theorem RoleNames_never_nil:
  "RoleNames user = Some (map Name (elems (Roles user))) \<and>
   RoleNames user \<noteq> None \<and>
   marshalStrings (RoleNames user) = JArr (map JStr (map Name (elems (Roles user)))) \<and>
   (\<forall>n body. SecurityPutUser n body \<in> set (issued es (snd (CreateUser es user))) \<longrightarrow>
      n = Username user \<and>
      json_member ''roles'' body = JArr (map JStr (map Name (elems (Roles user)))) \<and>
      json_member ''roles'' body \<noteq> JNull) \<and>
   (Username user \<noteq> [] \<and>
    (\<forall>r \<in> set (filter (\<lambda>role. Definition role \<noteq> None) (elems (Roles user))).
        fst (createRole es r) = None) \<longrightarrow>
      issued es (snd (CreateUser es user)) =
        map (\<lambda>r. SecurityPutRole (Name r) (Definition r))
          (filter (\<lambda>role. Definition role \<noteq> None) (elems (Roles user))) @
        [SecurityPutUser (Username user)
           (JObj [(''password'', JStr (Password user)),
                  (''roles'', JArr (map JStr (map Name (elems (Roles user)))))])] \<and>
      fst (CreateUser es user) =
        failure (server es)
          (SecurityPutUser (Username user)
             (JObj [(''password'', JStr (Password user)),
                    (''roles'', JArr (map JStr (map Name (elems (Roles user)))))]))) \<and>
   (Username user \<noteq> [] \<and> elems (Roles user) = [] \<longrightarrow>
      RoleNames user = Some [] \<and>
      issued es (snd (CreateUser es user)) =
        [SecurityPutUser (Username user)
           (JObj [(''password'', JStr (Password user)), (''roles'', JArr [])])])"
proof (intro conjI impI allI)
  show "RoleNames user = Some (map Name (elems (Roles user)))"
    by (rule RoleNames_eq)
  show "RoleNames user \<noteq> None"
    by (simp add: RoleNames_eq)
  show "marshalStrings (RoleNames user) = JArr (map JStr (map Name (elems (Roles user))))"
    by (simp add: RoleNames_eq marshalStrings_def)
next
  fix n body
  assume sent: "SecurityPutUser n body \<in> set (issued es (snd (CreateUser es user)))"
  obtain new where "requests (snd (CreateUser es user)) = requests es @ new"
    and puts: "\<forall>n body. SecurityPutUser n body \<in> set new \<longrightarrow>
        n = Username user \<and>
        body = JObj [(''password'', JStr (Password user)),
                     (''roles'', JArr (map JStr (map Name (elems (Roles user)))))]"
    using CreateUser_requests [of es user] by blast
  then have "issued es (snd (CreateUser es user)) = new"
    by (simp add: issued_def)
  then have body: "n = Username user \<and> body = JObj [(''password'', JStr (Password user)),
                     (''roles'', JArr (map JStr (map Name (elems (Roles user)))))]"
    using sent puts by simp
  show "n = Username user" using body by simp
  show "json_member ''roles'' body = JArr (map JStr (map Name (elems (Roles user))))"
    using body by (simp add: json_member_def)
  show "json_member ''roles'' body \<noteq> JNull"
    using body by (simp add: json_member_def)
next
  assume h: "Username user \<noteq> [] \<and>
    (\<forall>r \<in> set (filter (\<lambda>role. Definition role \<noteq> None) (elems (Roles user))).
        fst (createRole es r) = None)"
  then have name: "Username user \<noteq> []"
    and ok: "\<forall>r \<in> set (filter (\<lambda>role. Definition role \<noteq> None) (elems (Roles user))).
        fst (createRole es r) = None"
    by blast+
  note res = CreateUser_ok [OF ok name]
  show "issued es (snd (CreateUser es user)) =
        map (\<lambda>r. SecurityPutRole (Name r) (Definition r))
          (filter (\<lambda>role. Definition role \<noteq> None) (elems (Roles user))) @
        [SecurityPutUser (Username user)
           (JObj [(''password'', JStr (Password user)),
                  (''roles'', JArr (map JStr (map Name (elems (Roles user)))))])]"
    by (simp add: res issued_def)
  show "fst (CreateUser es user) =
        failure (server es)
          (SecurityPutUser (Username user)
             (JObj [(''password'', JStr (Password user)),
                    (''roles'', JArr (map JStr (map Name (elems (Roles user)))))]))"
    by (simp add: res)
next
  assume h: "Username user \<noteq> [] \<and> elems (Roles user) = []"
  then show "RoleNames user = Some []"
    by (simp add: RoleNames_eq)
  have "\<forall>r \<in> set (filter (\<lambda>role. Definition role \<noteq> None) (elems (Roles user))).
        fst (createRole es r) = None"
    using h by simp
  from CreateUser_ok [OF this] h
  show "issued es (snd (CreateUser es user)) =
        [SecurityPutUser (Username user)
           (JObj [(''password'', JStr (Password user)), (''roles'', JArr [])])]"
    by (simp add: issued_def)
qed

theorem RoleNames_never_nil_witness:
  "RoleNames \<lparr> Username = ''u0'', Password = ''pw'', Roles = None \<rparr> = Some [] \<and>
   issued fresh_connection
       (snd (CreateUser fresh_connection \<lparr> Username = ''u0'', Password = ''pw'', Roles = None \<rparr>)) =
     [SecurityPutUser ''u0'' (JObj [(''password'', JStr ''pw''), (''roles'', JArr [])])] \<and>
   issued fresh_connection (snd (CreateUser fresh_connection sample_linseed)) =
     [SecurityPutRole ''linseed''
        (Some \<lparr> Cluster = Some [''monitor'', ''manage_ilm''], Indices = None, Applications = None \<rparr>),
      SecurityPutUser ''linseed''
        (JObj [(''password'', JStr ''pw''), (''roles'', JArr [JStr ''linseed'', JStr ''viewer''])])] \<and>
   json_member ''roles''
       (JObj [(''password'', JStr ''pw''), (''roles'', JArr [JStr ''linseed'', JStr ''viewer''])]) =
     JArr (map JStr (map Name (elems (Roles sample_linseed))))"
proof -
  let ?u0 = "\<lparr> Username = ''u0'', Password = ''pw'', Roles = None \<rparr>"
  let ?body = "JObj [(''password'', JStr ''pw''), (''roles'', JArr [JStr ''linseed'', JStr ''viewer''])]"
  have none: "Username ?u0 \<noteq> [] \<and> elems (Roles ?u0) = []"
    by (simp add: elems_def)
  have a: "RoleNames ?u0 = Some [] \<and>
      issued fresh_connection (snd (CreateUser fresh_connection ?u0)) =
        [SecurityPutUser ''u0'' (JObj [(''password'', JStr ''pw''), (''roles'', JArr [])])]"
    using RoleNames_never_nil [where user = ?u0 and es = fresh_connection] none by simp
  have roles: "elems (Roles sample_linseed) =
      [\<lparr> Name = ''linseed'',
          Definition = Some \<lparr> Cluster = Some [''monitor'', ''manage_ilm''],
                              Indices = None, Applications = None \<rparr> \<rparr>,
       \<lparr> Name = ''viewer'', Definition = None \<rparr>]"
    by (simp add: sample_linseed_def elems_def)
  have ok: "Username sample_linseed \<noteq> [] \<and>
      (\<forall>r \<in> set (filter (\<lambda>role. Definition role \<noteq> None) (elems (Roles sample_linseed))).
          fst (createRole fresh_connection r) = None)"
    by (simp add: roles createRole_def Do_def Validate_def fresh_connection_def)
       (simp add: sample_linseed_def)
  have b: "issued fresh_connection (snd (CreateUser fresh_connection sample_linseed)) =
      [SecurityPutRole ''linseed''
         (Some \<lparr> Cluster = Some [''monitor'', ''manage_ilm''], Indices = None, Applications = None \<rparr>),
       SecurityPutUser ''linseed'' ?body]"
    using RoleNames_never_nil [where user = sample_linseed and es = fresh_connection,
        THEN conjunct2, THEN conjunct2, THEN conjunct2, THEN conjunct2, THEN conjunct1, THEN mp, OF ok]
    by (simp add: roles) (simp add: sample_linseed_def)
  have sent: "SecurityPutUser ''linseed'' ?body
      \<in> set (issued fresh_connection (snd (CreateUser fresh_connection sample_linseed)))"
    by (simp add: b)
  have c: "json_member ''roles'' ?body = JArr (map JStr (map Name (elems (Roles sample_linseed))))"
    by (rule RoleNames_never_nil [where user = sample_linseed and es = fresh_connection,
        THEN conjunct2, THEN conjunct2, THEN conjunct2, THEN conjunct1, THEN spec, THEN spec,
        THEN mp, OF sent, THEN conjunct2, THEN conjunct1])
  show ?thesis using a b c by simp
qed

text \<open>
  C9, as amended.  For a principal with a non-empty user name, \<open>DeleteUser\<close> deletes the
  roles in order and then the principal: if the delete of every role succeeds, the
  requests are one role delete per role followed by exactly one principal delete.  If
  the delete of a role fails (the request fails, or the role has an empty name and no
  request is sent), the roles before it have been deleted, nothing is sent after it,
  no principal delete is sent, and that error is returned.  For a principal with an
  empty user name whose role deletes all succeed, the role deletes are sent but the
  principal delete is not: the client refuses it for its missing user name.
\<close>

theorem DeleteUser_roles_first:
  "((\<forall>r \<in> set (elems (Roles user)). fst (deleteRole es r) = None) \<and> Username user \<noteq> [] \<longrightarrow>
      issued es (snd (DeleteUser es user)) =
        map (\<lambda>r. SecurityDeleteRole (Name r)) (elems (Roles user)) @ [SecurityDeleteUser (Username user)] \<and>
      fst (DeleteUser es user) = failure (server es) (SecurityDeleteUser (Username user))) \<and>
   ((\<forall>r \<in> set (elems (Roles user)). fst (deleteRole es r) = None) \<and> Username user = [] \<longrightarrow>
      issued es (snd (DeleteUser es user)) =
        map (\<lambda>r. SecurityDeleteRole (Name r)) (elems (Roles user)) \<and>
      fst (DeleteUser es user) = Some (LibraryError ''missing required fields: [Username]'')) \<and>
   (elems (Roles user) = pre @ r # post \<and> (\<forall>p \<in> set pre. fst (deleteRole es p) = None) \<and>
    fst (deleteRole es r) = Some err \<longrightarrow>
      fst (DeleteUser es user) = Some err \<and>
      issued es (snd (DeleteUser es user)) =
        map (\<lambda>r. SecurityDeleteRole (Name r)) pre @
        (if Name r = [] then [] else [SecurityDeleteRole (Name r)]) \<and>
      (\<forall>n. SecurityDeleteUser n \<notin> set (issued es (snd (DeleteUser es user)))))"
proof (intro conjI impI)
  assume h: "(\<forall>r \<in> set (elems (Roles user)). fst (deleteRole es r) = None) \<and> Username user \<noteq> []"
  then have ok: "\<forall>r \<in> set (elems (Roles user)). fst (deleteRole es r) = None"
    and name: "Username user \<noteq> []"
    by blast+
  have res: "DeleteUser es user =
      (failure (server es) (SecurityDeleteUser (Username user)),
       es\<lparr>requests := requests es @ map (\<lambda>r. SecurityDeleteRole (Name r)) (elems (Roles user)) @
          [SecurityDeleteUser (Username user)]\<rparr>)"
    using DeleteUser_after_roles [OF ok] name by (simp add: Do_def Validate_def)
  show "issued es (snd (DeleteUser es user)) =
        map (\<lambda>r. SecurityDeleteRole (Name r)) (elems (Roles user)) @ [SecurityDeleteUser (Username user)]"
    by (simp add: res issued_def)
  show "fst (DeleteUser es user) = failure (server es) (SecurityDeleteUser (Username user))"
    by (simp add: res)
next
  assume h: "(\<forall>r \<in> set (elems (Roles user)). fst (deleteRole es r) = None) \<and> Username user = []"
  then have ok: "\<forall>r \<in> set (elems (Roles user)). fst (deleteRole es r) = None"
    and name: "Username user = []"
    by blast+
  have res: "DeleteUser es user =
      (Some (LibraryError ''missing required fields: [Username]''),
       es\<lparr>requests := requests es @ map (\<lambda>r. SecurityDeleteRole (Name r)) (elems (Roles user))\<rparr>)"
    using DeleteUser_after_roles [OF ok] name by (simp add: Do_def Validate_def)
  show "issued es (snd (DeleteUser es user)) =
        map (\<lambda>r. SecurityDeleteRole (Name r)) (elems (Roles user))"
    by (simp add: res issued_def)
  show "fst (DeleteUser es user) = Some (LibraryError ''missing required fields: [Username]'')"
    by (simp add: res)
next
  assume h: "elems (Roles user) = pre @ r # post \<and> (\<forall>p \<in> set pre. fst (deleteRole es p) = None) \<and>
    fst (deleteRole es r) = Some err"
  then have roles: "elems (Roles user) = pre @ r # post"
    and ok: "\<forall>p \<in> set pre. fst (deleteRole es p) = None"
    and bad: "fst (deleteRole es r) = Some err"
    by auto
  have res: "DeleteUser es user =
      (Some err, es\<lparr>requests := requests es @ map (\<lambda>r. SecurityDeleteRole (Name r)) pre @
           (if Name r = [] then [] else [SecurityDeleteRole (Name r)])\<rparr>)"
    using DeleteRoles_fail [OF ok bad, of post] by (simp add: DeleteUser_def roles)
  show "fst (DeleteUser es user) = Some err"
    by (simp add: res)
  show iss: "issued es (snd (DeleteUser es user)) =
        map (\<lambda>r. SecurityDeleteRole (Name r)) pre @
        (if Name r = [] then [] else [SecurityDeleteRole (Name r)])"
    by (simp add: res issued_def)
  show "\<forall>n. SecurityDeleteUser n \<notin> set (issued es (snd (DeleteUser es user)))"
    unfolding iss by auto
qed

theorem DeleteUser_roles_first_witness:
  "issued fresh_connection (snd (DeleteUser fresh_connection sample_user)) =
     [SecurityDeleteRole ''r1'', SecurityDeleteRole ''r2'', SecurityDeleteUser ''u1''] \<and>
   issued fresh_connection (snd (DeleteUser fresh_connection nameless_user)) =
     [SecurityDeleteRole ''r1''] \<and>
   fst (DeleteUser (failing_connection (SecurityDeleteRole ''r1'')) sample_user) =
     Some (ElasticError 500 ''Internal Server Error'') \<and>
   issued (failing_connection (SecurityDeleteRole ''r1''))
       (snd (DeleteUser (failing_connection (SecurityDeleteRole ''r1'')) sample_user)) =
     [SecurityDeleteRole ''r1'']"
proof -
  let ?r1 = "\<lparr> Name = ''r1'', Definition = None \<rparr>"
  let ?r2 = "\<lparr> Name = ''r2'', Definition = None \<rparr>"
  let ?bad = "failing_connection (SecurityDeleteRole ''r1'')"
  have roles: "elems (Roles sample_user) = [?r1, ?r2]"
    by (simp add: sample_user_def elems_def)
  have ok: "(\<forall>r \<in> set (elems (Roles sample_user)). fst (deleteRole fresh_connection r) = None) \<and>
      Username sample_user \<noteq> []"
    by (simp add: roles deleteRole_def Do_def Validate_def fresh_connection_def)
       (simp add: sample_user_def)
  have a: "issued fresh_connection (snd (DeleteUser fresh_connection sample_user)) =
     [SecurityDeleteRole ''r1'', SecurityDeleteRole ''r2'', SecurityDeleteUser ''u1'']"
    using DeleteUser_roles_first [where user = sample_user and es = fresh_connection,
        THEN conjunct1, THEN mp, OF ok]
    by (simp add: roles) (simp add: sample_user_def)
  have roles0: "elems (Roles nameless_user) = [?r1]"
    by (simp add: nameless_user_def elems_def)
  have ok0: "(\<forall>r \<in> set (elems (Roles nameless_user)). fst (deleteRole fresh_connection r) = None) \<and>
      Username nameless_user = []"
    by (simp add: roles0 deleteRole_def Do_def Validate_def fresh_connection_def)
       (simp add: nameless_user_def)
  have n: "issued fresh_connection (snd (DeleteUser fresh_connection nameless_user)) =
     [SecurityDeleteRole ''r1'']"
    using DeleteUser_roles_first [where user = nameless_user and es = fresh_connection,
        THEN conjunct2, THEN conjunct1, THEN mp, OF ok0]
    by (simp add: roles0)
  have split: "elems (Roles sample_user) = [] @ ?r1 # [?r2]"
    by (simp add: roles)
  have bad: "fst (deleteRole ?bad ?r1) = Some (ElasticError 500 ''Internal Server Error'')"
    by (simp add: deleteRole_def Do_def Validate_def failing_connection_def)
  have h: "elems (Roles sample_user) = [] @ ?r1 # [?r2] \<and>
      (\<forall>p \<in> set []. fst (deleteRole ?bad p) = None) \<and>
      fst (deleteRole ?bad ?r1) = Some (ElasticError 500 ''Internal Server Error'')"
    using split bad by simp
  have b: "fst (DeleteUser ?bad sample_user) = Some (ElasticError 500 ''Internal Server Error'') \<and>
      issued ?bad (snd (DeleteUser ?bad sample_user)) = [SecurityDeleteRole ''r1'']"
    using DeleteUser_roles_first [where user = sample_user and es = ?bad and pre = "[]"
        and r = ?r1 and post = "[?r2]" and err = "ElasticError 500 ''Internal Server Error''",
        THEN conjunct2, THEN conjunct2, THEN mp, OF h]
    by simp
  show ?thesis using a n b by simp
qed

text \<open>
  C9 as stated fails for a principal with an empty user name: its one role is deleted
  with success, yet no principal delete is sent; the call returns the client's
  validation error.
\<close>

theorem DeleteUser_empty_username_counterexample:
  "fst (deleteRole fresh_connection \<lparr> Name = ''r1'', Definition = None \<rparr>) = None \<and>
   DeleteUser fresh_connection nameless_user =
     (Some (LibraryError ''missing required fields: [Username]''),
      fresh_connection\<lparr>requests := [SecurityDeleteRole ''r1'']\<rparr>) \<and>
   SecurityDeleteUser (Username nameless_user)
     \<notin> set (issued fresh_connection (snd (DeleteUser fresh_connection nameless_user)))"
  by (simp add: DeleteUser_def deleteRole_def Do_def Validate_def nameless_user_def elems_def
      fresh_connection_def issued_def)

end
